theory Spec2Isabelle
  imports Complex_Main "HOL-Library.Word"
begin

section \<open>A recursive ray tracer (main3.py)\<close>

text \<open>
  The program computes with Python floats. The embedding reads a float as a
  \<^typ>\<open>real\<close>. What the program raises is a value of the type \<open>error\<close>, and a
  function that can raise returns \<open>error + 'a\<close> with \<open>Inl\<close> for the exception.

  Where a float operation decides whether \<open>Sphere.intersect\<close> raises, it is a
  parameter of the model (the record \<open>arith\<close> below), so that what is proved of
  \<open>intersect_with\<close> and \<open>hit_with\<close> holds however the floats round, underflow or
  overflow there. Everywhere else a float operation is the exact operation on reals:
  rounding, infinities and NaN are outside the model. The shader and the renderer call
  \<open>intersect\<close> and \<open>hit\<close>, which are \<open>intersect_with\<close> and \<open>hit_with\<close> at the exact
  arithmetic.
\<close>

datatype error = ZeroDivisionError | ValueError | TypeError | OverflowError

subsection \<open>Vector3\<close>

text \<open>
  The fields \<open>x\<close>, \<open>y\<close>, \<open>z\<close> of the class are the selectors \<open>vx\<close>, \<open>vy\<close>, \<open>vz\<close>.
\<close>

datatype vector3 = Vector3 (vx: real) (vy: real) (vz: real)

definition add :: "vector3 \<Rightarrow> vector3 \<Rightarrow> vector3" where
  "add self other =
     (let x_comp = vx self + vx other;
          y_comp = vy self + vy other;
          z_comp = vz self + vz other
      in Vector3 x_comp y_comp z_comp)"

definition neg :: "vector3 \<Rightarrow> vector3" where
  "neg self = Vector3 (- vx self) (- vy self) (- vz self)"

definition sub :: "vector3 \<Rightarrow> vector3 \<Rightarrow> vector3" where
  "sub self other =
     (let x_comp = vx self - vx other;
          y_comp = vy self - vy other;
          z_comp = vz self - vz other
      in Vector3 x_comp y_comp z_comp)"

text \<open>
  \<open>__mul__\<close> looks at the run-time type of its operand: another vector (the product
  is component-wise), a number (the vector is scaled), or anything else (TypeError).
  \<open>__rmul__\<close> is the same function, so \<open>k * v\<close> is \<open>v * k\<close>.
\<close>

datatype operand = Vec vector3 | Num real | Other

definition mul_vec :: "vector3 \<Rightarrow> vector3 \<Rightarrow> vector3" where
  "mul_vec self other = Vector3 (vx self * vx other) (vy self * vy other) (vz self * vz other)"

definition mul_num :: "vector3 \<Rightarrow> real \<Rightarrow> vector3" where
  "mul_num self other = Vector3 (vx self * other) (vy self * other) (vz self * other)"

fun mul :: "vector3 \<Rightarrow> operand \<Rightarrow> error + vector3" where
  "mul self (Vec other) = Inr (mul_vec self other)"
| "mul self (Num other) = Inr (mul_num self other)"
| "mul self Other = Inl TypeError"

definition truediv :: "vector3 \<Rightarrow> real \<Rightarrow> error + vector3" where
  "truediv self scalar =
     (if scalar = 0 then Inl ValueError
      else Inr (Vector3 (vx self / scalar) (vy self / scalar) (vz self / scalar)))"

text \<open>
  \<open>__itruediv__\<close> assigns the quotients to the fields of \<open>self\<close> and returns
  \<open>self\<close>. \<open>itruediv\<close> is the value that \<open>v /= scalar\<close> leaves in \<open>v\<close>; the
  assignment itself is \<open>itruediv_obj\<close> below.
\<close>

definition itruediv :: "vector3 \<Rightarrow> real \<Rightarrow> error + vector3" where
  "itruediv self scalar =
     (if scalar = 0 then Inl ValueError
      else Inr (Vector3 (vx self / scalar) (vy self / scalar) (vz self / scalar)))"

definition dot :: "vector3 \<Rightarrow> vector3 \<Rightarrow> real" where
  "dot self other =
     (let x_comp = vx self * vx other;
          y_comp = vy self * vy other;
          z_comp = vz self * vz other
      in x_comp + y_comp + z_comp)"

definition cross :: "vector3 \<Rightarrow> vector3 \<Rightarrow> vector3" where
  "cross self other =
     (let x_comp = (vy self * vz other) - (vz self * vy other);
          y_comp = - (vx self * vz other) + (vz self * vx other);
          z_comp = (vx self * vy other) - (vy self * vx other)
      in Vector3 x_comp y_comp z_comp)"

definition length_vec :: "vector3 \<Rightarrow> real" where
  "length_vec self =
     (let x2 = (vx self)\<^sup>2; y2 = (vy self)\<^sup>2; z2 = (vz self)\<^sup>2
      in sqrt (x2 + y2 + z2))"

definition normalize :: "vector3 \<Rightarrow> vector3" where
  "normalize self =
     (let len = length_vec self
      in if len \<noteq> 0 then Vector3 (vx self / len) (vy self / len) (vz self / len)
         else Vector3 0 0 0)"

definition reflect :: "vector3 \<Rightarrow> vector3 \<Rightarrow> vector3" where
  "reflect self normal = sub self (mul_num normal (2 * dot self normal))"

text \<open>
  \<open>rgb\<close> clamps a channel with \<open>max(0, min(1, c))\<close> and converts \<open>c * 255\<close> to
  numpy's \<open>uint8\<close>, which drops the fraction. The clamped value lies in \<open>[0, 255]\<close>.
\<close>

definition uint8 :: "real \<Rightarrow> 8 word" where
  "uint8 v = word_of_int \<lfloor>v\<rfloor>"

definition rgb :: "vector3 \<Rightarrow> 8 word list" where
  "rgb self =
     (let r = max 0 (min 1 (vx self));
          g = max 0 (min 1 (vy self));
          b = max 0 (min 1 (vz self))
      in [uint8 (r * 255), uint8 (g * 255), uint8 (b * 255)])"

subsection \<open>Vector3 objects\<close>

text \<open>
  A \<open>Vector3\<close> is a Python object: two names can refer to the same one, and an
  assignment to \<open>self.x\<close> is seen through both. The store is the list of the objects
  created so far, a reference is a position in it, and \<open>Vector3(...)\<close> appends the new
  object. Each method takes the store, reads its operands through their references and
  returns the store it leaves behind with its result.
\<close>

type_synonym store = "vector3 list"

definition new :: "store \<Rightarrow> vector3 \<Rightarrow> store \<times> nat" where
  "new h v = (h @ [v], length h)"

definition add_obj :: "store \<Rightarrow> nat \<Rightarrow> nat \<Rightarrow> store \<times> nat" where
  "add_obj h self other = new h (add (h ! self) (h ! other))"

definition neg_obj :: "store \<Rightarrow> nat \<Rightarrow> store \<times> nat" where
  "neg_obj h self = new h (neg (h ! self))"

definition sub_obj :: "store \<Rightarrow> nat \<Rightarrow> nat \<Rightarrow> store \<times> nat" where
  "sub_obj h self other = new h (sub (h ! self) (h ! other))"

datatype operand_ref = VecRef nat | NumVal real | OtherVal

fun mul_obj :: "store \<Rightarrow> nat \<Rightarrow> operand_ref \<Rightarrow> error + store \<times> nat" where
  "mul_obj h self (VecRef other) = Inr (new h (mul_vec (h ! self) (h ! other)))"
| "mul_obj h self (NumVal other) = Inr (new h (mul_num (h ! self) other))"
| "mul_obj h self OtherVal = Inl TypeError"

definition truediv_obj :: "store \<Rightarrow> nat \<Rightarrow> real \<Rightarrow> error + store \<times> nat" where
  "truediv_obj h self scalar =
     (if scalar = 0 then Inl ValueError
      else Inr (new h (Vector3 (vx (h ! self) / scalar) (vy (h ! self) / scalar)
                         (vz (h ! self) / scalar))))"

text \<open>
  \<open>__itruediv__\<close> assigns to \<open>self.x\<close>, \<open>self.y\<close>, \<open>self.z\<close> and returns \<open>self\<close>:
  no object is created.
\<close>

definition itruediv_obj :: "store \<Rightarrow> nat \<Rightarrow> real \<Rightarrow> error + store \<times> nat" where
  "itruediv_obj h self scalar =
     (if scalar = 0 then Inl ValueError
      else Inr (h[self := Vector3 (vx (h ! self) / scalar) (vy (h ! self) / scalar)
                            (vz (h ! self) / scalar)], self))"

definition dot_obj :: "store \<Rightarrow> nat \<Rightarrow> nat \<Rightarrow> store \<times> real" where
  "dot_obj h self other = (h, dot (h ! self) (h ! other))"

definition cross_obj :: "store \<Rightarrow> nat \<Rightarrow> nat \<Rightarrow> store \<times> nat" where
  "cross_obj h self other = new h (cross (h ! self) (h ! other))"

definition length_obj :: "store \<Rightarrow> nat \<Rightarrow> store \<times> real" where
  "length_obj h self = (h, length_vec (h ! self))"

definition normalize_obj :: "store \<Rightarrow> nat \<Rightarrow> store \<times> nat" where
  "normalize_obj h self = new h (normalize (h ! self))"

text \<open>
  \<open>reflect\<close> creates two objects: \<open>2 * self.dot(normal) * normal\<close>, and the difference.
\<close>

definition reflect_obj :: "store \<Rightarrow> nat \<Rightarrow> nat \<Rightarrow> store \<times> nat" where
  "reflect_obj h self normal =
     (let (h1, k) = dot_obj h self normal;
          (h2, scaled) = new h1 (mul_num (h1 ! normal) (2 * k))
      in sub_obj h2 self scaled)"

definition rgb_obj :: "store \<Rightarrow> nat \<Rightarrow> store \<times> 8 word list" where
  "rgb_obj h self = (h, rgb (h ! self))"

subsection \<open>Ray, Material, Light, Sphere\<close>

record ray =
  origin :: vector3
  direction :: vector3

definition point :: "ray \<Rightarrow> real \<Rightarrow> vector3" where
  "point self t = add (origin self) (mul_num (direction self) t)"

text \<open>
  The shininess is the exponent of the specular term; the program only ever sets it
  to a non-negative integer literal, and it is a natural number here.
\<close>

record material =
  diffuse_color :: vector3
  specular_color :: vector3
  ambient_color :: vector3
  shininess :: nat
  reflectivity :: real
  transparency :: real
  refractive_index :: real
  emission_color :: "real \<times> real \<times> real"

text \<open>
  \<open>Material.__init__\<close>: an \<open>ambient_color\<close> that is not given is the diffuse
  colour.
\<close>

definition Material ::
  "vector3 \<Rightarrow> vector3 \<Rightarrow> vector3 option \<Rightarrow> nat \<Rightarrow> real \<Rightarrow> real \<Rightarrow> real
     \<Rightarrow> real \<times> real \<times> real \<Rightarrow> material" where
  "Material dc sc ac sh rf tr ri em =
     \<lparr>diffuse_color = dc, specular_color = sc,
      ambient_color = (case ac of Some a \<Rightarrow> a | None \<Rightarrow> dc),
      shininess = sh, reflectivity = rf, transparency = tr, refractive_index = ri,
      emission_color = em\<rparr>"

record light =
  position :: vector3
  color :: vector3
  intensity :: real

record sphere =
  center :: vector3
  radius :: real
  material :: material

subsection \<open>The float operations that decide what intersect raises\<close>

text \<open>
  \<open>Sphere.intersect\<close> raises in two ways. The division by \<open>2 * a\<close> raises
  ZeroDivisionError when \<open>a = direction.dot(direction)\<close> is \<open>0.0\<close>: as floats, the
  products of \<open>dot\<close> underflow to \<open>0.0\<close> for small components. And \<open>x ** 2\<close> raises
  OverflowError when the square is beyond the largest float. An \<open>arith\<close> says how
  the two operations compute: \<open>fdot\<close> is \<open>Vector3.dot\<close> and \<open>fsquare\<close> is \<open>x ** 2\<close>.
\<close>

record arith =
  fdot :: "vector3 \<Rightarrow> vector3 \<Rightarrow> real"
  fsquare :: "real \<Rightarrow> error + real"

text \<open>The arithmetic of the rest of the theory: floats as reals.\<close>

definition exact :: arith where
  "exact = \<lparr>fdot = dot, fsquare = (\<lambda>x. Inr (x\<^sup>2))\<rparr>"

text \<open>
  The arithmetic of IEEE doubles for these two operations. \<open>to_double\<close> is the double
  nearest to a real, ties to the even one, for a real within the range of the doubles:
  doubles of exponent \<open>e\<close> are \<open>2\<^bsup>e - 52\<^esup>\<close> apart, and below \<open>2\<^bsup>-1022\<^esup>\<close> they are
  \<open>2\<^bsup>-1074\<^esup>\<close> apart. A product and a sum of two doubles is the exact result rounded.
  A square that rounds beyond the largest double makes \<open>**\<close> raise.
\<close>

definition round_half_even :: "real \<Rightarrow> int" where
  "round_half_even x =
     (let f = \<lfloor>x\<rfloor>; rest = x - of_int f
      in if rest < 1 / 2 then f
         else if 1 / 2 < rest then f + 1
         else if even f then f else f + 1)"

definition to_double :: "real \<Rightarrow> real" where
  "to_double x =
     (if x = 0 then 0
      else let e = max \<lfloor>log 2 \<bar>x\<bar>\<rfloor> (- 1022);
               u = 2 powr (of_int e - 52)
           in of_int (round_half_even (x / u)) * u)"

definition fmul :: "real \<Rightarrow> real \<Rightarrow> real" where
  "fmul x y = to_double (x * y)"

definition fadd :: "real \<Rightarrow> real \<Rightarrow> real" where
  "fadd x y = to_double (x + y)"

definition dot_double :: "vector3 \<Rightarrow> vector3 \<Rightarrow> real" where
  "dot_double self other =
     (let x_comp = fmul (vx self) (vx other);
          y_comp = fmul (vy self) (vy other);
          z_comp = fmul (vz self) (vz other)
      in fadd (fadd x_comp y_comp) z_comp)"

definition square_double :: "real \<Rightarrow> error + real" where
  "square_double x =
     (if 2 ^ 1024 - 2 ^ 970 \<le> x\<^sup>2 then Inl OverflowError else Inr (to_double (x\<^sup>2)))"

definition doubles :: arith where
  "doubles = \<lparr>fdot = dot_double, fsquare = square_double\<rparr>"

text \<open>
  \<open>Sphere.intersect\<close>, in the order of the source: \<open>radius ** 2\<close> and \<open>b ** 2\<close> are
  evaluated before the discriminant is looked at, and the two divisions, which have the
  same divisor \<open>2 * a\<close>, are reached exactly when the discriminant is not negative.
\<close>

definition intersect_with :: "arith \<Rightarrow> sphere \<Rightarrow> ray \<Rightarrow> error + real option" where
  "intersect_with ar self r =
     (let oc = sub (origin r) (center self);
          a = fdot ar (direction r) (direction r);
          b = 2 * fdot ar oc (direction r)
      in case fsquare ar (radius self) of
           Inl e \<Rightarrow> Inl e
         | Inr radius2 \<Rightarrow>
             let c = fdot ar oc oc - radius2
             in case fsquare ar b of
                  Inl e \<Rightarrow> Inl e
                | Inr b2 \<Rightarrow>
                    let d = b2 - 4 * a * c
                    in if d < 0 then Inr None
                       else let sq = sqrt d
                            in if 2 * a = 0 then Inl ZeroDivisionError
                               else let t1 = (- b - sq) / (2 * a);
                                        t2 = (- b + sq) / (2 * a)
                                    in if t1 > 0.001 then Inr (Some t1)
                                       else if t2 > 0.001 then Inr (Some t2)
                                       else Inr None)"

definition intersect :: "sphere \<Rightarrow> ray \<Rightarrow> error + real option" where
  "intersect = intersect_with exact"

definition normal_vector :: "sphere \<Rightarrow> vector3 \<Rightarrow> vector3" where
  "normal_vector self p = normalize (sub p (center self))"

subsection \<open>Scene\<close>

record scene =
  lighting :: "light list"
  objects :: "sphere list"

text \<open>
  The loop of \<open>Scene.hit\<close>. Its two variables start as \<open>closest_t = inf\<close> and
  \<open>closest_obj = None\<close> and are only ever assigned together, so the state is one
  optional pair that is \<open>None\<close> exactly while \<open>closest_t\<close> is still \<open>inf\<close>; every
  \<open>t\<close> is below \<open>inf\<close>. An exception of \<open>intersect\<close> leaves the loop.
\<close>

fun hit_loop_with ::
  "arith \<Rightarrow> ray \<Rightarrow> sphere list \<Rightarrow> (real \<times> sphere) option \<Rightarrow> error + (real \<times> sphere) option" where
  "hit_loop_with ar r [] closest = Inr closest"
| "hit_loop_with ar r (obj # rest) closest =
     (case intersect_with ar obj r of
        Inl e \<Rightarrow> Inl e
      | Inr None \<Rightarrow> hit_loop_with ar r rest closest
      | Inr (Some t) \<Rightarrow>
          if (case closest of None \<Rightarrow> True | Some (closest_t, closest_obj) \<Rightarrow> t < closest_t)
          then hit_loop_with ar r rest (Some (t, obj))
          else hit_loop_with ar r rest closest)"

definition hit_with :: "arith \<Rightarrow> scene \<Rightarrow> ray \<Rightarrow> error + (vector3 \<times> sphere) option" where
  "hit_with ar self r =
     (case hit_loop_with ar r (objects self) None of
        Inl e \<Rightarrow> Inl e
      | Inr None \<Rightarrow> Inr None
      | Inr (Some (closest_t, closest_obj)) \<Rightarrow> Inr (Some (point r closest_t, closest_obj)))"

definition hit_loop :: "ray \<Rightarrow> sphere list \<Rightarrow> (real \<times> sphere) option \<Rightarrow> error + (real \<times> sphere) option" where
  "hit_loop = hit_loop_with exact"

definition hit :: "scene \<Rightarrow> ray \<Rightarrow> error + (vector3 \<times> sphere) option" where
  "hit = hit_with exact"

subsection \<open>Ray.color\<close>

definition background :: "ray \<Rightarrow> vector3" where
  "background self =
     (let alpha = 0.5 * (vy (direction self) + 1)
      in add (mul_num (Vector3 1 1 1) (1 - alpha)) (mul_num (Vector3 0.5 0.7 1.0) alpha))"

definition mix_color :: "vector3 \<Rightarrow> vector3 \<Rightarrow> real \<Rightarrow> vector3" where
  "mix_color a b t = add (mul_num a (1 - t)) (mul_num b t)"

text \<open>
  The body of the loop over the lights, up to the \<open>try\<close>: the diffuse and the specular
  term of one light.
\<close>

definition light_terms :: "sphere \<Rightarrow> vector3 \<Rightarrow> vector3 \<Rightarrow> vector3 \<Rightarrow> light \<Rightarrow> vector3 \<times> vector3" where
  "light_terms obj hit_point normal view_dir l =
     (let light_dir = normalize (sub (light.position l) hit_point);
          i_diff = max (dot normal light_dir) 0;
          diffuse = mul_num (mul_vec (diffuse_color (material obj)) (light.color l)) i_diff;
          reflect_dir = reflect (neg view_dir) normal;
          i_spec = (max (dot reflect_dir view_dir) 0) ^ shininess (material obj);
          specular = mul_num (mul_vec (specular_color (material obj)) (light.color l)) i_spec
      in (diffuse, specular))"

text \<open>
  \<open>color = color + diffuse + specular\<close> stands in a \<open>try\<close> whose handler catches
  TypeError, prints, and goes on to the next light with \<open>color\<close> as it was. Python
  resolves \<open>+\<close> when it runs, so the loop takes the operator as its parameter \<open>addop\<close>;
  on vectors of numbers it is \<open>py_add\<close>, which cannot raise. The products of lines 124
  and 128 are outside the \<open>try\<close>; they are products of vectors of numbers and of a
  number here, which do not raise.
\<close>

type_synonym adder = "vector3 \<Rightarrow> vector3 \<Rightarrow> error + vector3"

definition py_add :: adder where
  "py_add a b = Inr (add a b)"

definition accumulate :: "adder \<Rightarrow> vector3 \<Rightarrow> vector3 \<Rightarrow> vector3 \<Rightarrow> error + vector3" where
  "accumulate addop col diffuse specular =
     (case addop col diffuse of Inl e \<Rightarrow> Inl e | Inr s \<Rightarrow> addop s specular)"

fun light_loop ::
  "adder \<Rightarrow> sphere \<Rightarrow> vector3 \<Rightarrow> vector3 \<Rightarrow> vector3 \<Rightarrow> vector3 \<Rightarrow> light list \<Rightarrow> error + vector3" where
  "light_loop addop obj hit_point normal view_dir col [] = Inr col"
| "light_loop addop obj hit_point normal view_dir col (l # rest) =
     (case light_terms obj hit_point normal view_dir l of
        (diffuse, specular) \<Rightarrow>
          (case accumulate addop col diffuse specular of
             Inr col' \<Rightarrow> light_loop addop obj hit_point normal view_dir col' rest
           | Inl TypeError \<Rightarrow> light_loop addop obj hit_point normal view_dir col rest
           | Inl e \<Rightarrow> Inl e))"

text \<open>
  \<open>Ray.color(self, scene, depth, max_depth=3)\<close>. The scene is asked for a hit before
  the depth is looked at. The recursive call of line 137 passes \<open>depth + 1\<close> and no
  \<open>max_depth\<close>, so the callee runs with the default 3.
\<close>

function color :: "ray \<Rightarrow> scene \<Rightarrow> int \<Rightarrow> int \<Rightarrow> error + vector3" where
  "color self sc depth max_depth =
     (let epsilon = 0.01
      in case hit sc self of
           Inl e \<Rightarrow> Inl e
         | Inr None \<Rightarrow> Inr (background self)
         | Inr (Some (hit_point, obj)) \<Rightarrow>
             if depth \<ge> max_depth then Inr (background self)
             else
               let normal = normal_vector obj hit_point;
                   view_dir = neg (normalize (direction self))
               in case light_loop py_add obj hit_point normal view_dir (Vector3 0 0 0) (lighting sc) of
                    Inl e \<Rightarrow> Inl e
                  | Inr col \<Rightarrow>
                      if reflectivity (material obj) > 0 then
                        let reflect_dir = reflect (direction self) normal;
                            ref_ray = \<lparr>origin = add hit_point (mul_num normal epsilon),
                                       direction = reflect_dir\<rparr>
                        in case color ref_ray sc (depth + 1) 3 of
                             Inl e \<Rightarrow> Inl e
                           | Inr ref_color \<Rightarrow>
                               Inr (mix_color col ref_color (reflectivity (material obj)))
                      else Inr col)"
  by pat_completeness auto
termination
  by (relation "measure (\<lambda>(self, sc, depth, max_depth).
        if max_depth = 3 then nat (3 - depth) else Suc (nat (3 - depth)))") auto

declare color.simps [simp del]

subsection \<open>Camera\<close>

record camera =
  position :: vector3
  width :: int
  height :: int
  aspect_ratio :: real
  screen_distance :: real
  screen_width :: real
  screen_height :: real
  forward :: vector3
  right :: vector3
  up :: vector3

definition radians :: "real \<Rightarrow> real" where
  "radians x = x * pi / 180"

text \<open>
  \<open>Camera.__init__\<close>. The two float divisions raise on a zero divisor: \<open>height = 0\<close>,
  and an aspect ratio of 0, which is \<open>width = 0\<close>.
\<close>

definition Camera :: "vector3 \<Rightarrow> vector3 \<Rightarrow> real \<Rightarrow> int \<Rightarrow> int \<Rightarrow> error + camera" where
  "Camera pos target fov w h =
     (if h = 0 then Inl ZeroDivisionError
      else
        let aspect = real_of_int w / real_of_int h;
            sw = 2 * tan (radians (fov / 2))
        in if aspect = 0 then Inl ZeroDivisionError
           else
             let sh = sw / aspect;
                 fwd = normalize (sub target pos);
                 world_up = Vector3 0 1 0;
                 rgt = normalize (cross world_up fwd);
                 rgt = (if length_vec rgt < 0.001
                        then normalize (cross (Vector3 0 0 1) fwd) else rgt)
             in Inr \<lparr>position = pos, width = w, height = h, aspect_ratio = aspect,
                     screen_distance = 1, screen_width = sw, screen_height = sh,
                     forward = fwd, right = rgt, up = normalize (cross fwd rgt)\<rparr>)"

definition get_ray :: "camera \<Rightarrow> real \<Rightarrow> real \<Rightarrow> ray" where
  "get_ray self x y =
     (let screen_x = (x * 2 - 1) * screen_width self / 2;
          screen_y = (1 - y * 2) * screen_height self / 2;
          ray_direction = normalize (add (add (mul_num (right self) screen_x)
                                              (mul_num (up self) screen_y))
                                         (mul_num (forward self) (screen_distance self)))
      in \<lparr>origin = camera.position self, direction = ray_direction\<rparr>)"

subsection \<open>render_scene\<close>

text \<open>
  The body of the two inner loops: the colour of the sub-sample \<open>(sx, sy)\<close> of the pixel
  \<open>(x, y)\<close>. The divisions by \<open>width\<close> and \<open>height\<close> are inside loops over
  \<open>range(width)\<close> and \<open>range(height)\<close>, where neither is 0.
\<close>

definition sample_color :: "camera \<Rightarrow> scene \<Rightarrow> int \<Rightarrow> int \<Rightarrow> nat \<Rightarrow> nat \<Rightarrow> nat \<Rightarrow> nat \<Rightarrow> error + vector3" where
  "sample_color cam sc w h x y sx sy =
     (let sample = 2;
          offset_x = (real sx + 0.5) / sample;
          offset_y = (real sy + 0.5) / sample;
          u = (real x + offset_x) / real_of_int w;
          v = (real y + offset_y) / real_of_int h;
          r = get_ray cam u v
      in color r sc 2 3)"

text \<open>
  \<open>total_color = total_color + color\<close> over the sub-samples in the order of the loops,
  \<open>sy\<close> outside and \<open>sx\<close> inside; an exception of the shader leaves the loops.
\<close>

fun sample_loop :: "(nat \<Rightarrow> nat \<Rightarrow> error + vector3) \<Rightarrow> vector3 \<Rightarrow> (nat \<times> nat) list \<Rightarrow> error + vector3" where
  "sample_loop f total_color [] = Inr total_color"
| "sample_loop f total_color ((sy, sx) # rest) =
     (case f sx sy of
        Inl e \<Rightarrow> Inl e
      | Inr c \<Rightarrow> sample_loop f (add total_color c) rest)"

definition render_pixel :: "camera \<Rightarrow> scene \<Rightarrow> int \<Rightarrow> int \<Rightarrow> nat \<Rightarrow> nat \<Rightarrow> error + 8 word list" where
  "render_pixel cam sc w h x y =
     (let sample = 2
      in case sample_loop (sample_color cam sc w h x y) (Vector3 0 0 0)
                (List.product [0..<sample] [0..<sample]) of
           Inl e \<Rightarrow> Inl e
         | Inr total_color \<Rightarrow>
             (case itruediv total_color (real (sample ^ 2)) of
                Inl e \<Rightarrow> Inl e
              | Inr total_color' \<Rightarrow> Inr (rgb total_color')))"

text \<open>A loop that fills a list in order and stops at the first exception.\<close>

fun for_each :: "('a \<Rightarrow> error + 'b) \<Rightarrow> 'a list \<Rightarrow> error + 'b list" where
  "for_each f [] = Inr []"
| "for_each f (a # as) =
     (case f a of
        Inl e \<Rightarrow> Inl e
      | Inr b \<Rightarrow> (case for_each f as of Inl e \<Rightarrow> Inl e | Inr bs \<Rightarrow> Inr (b # bs)))"

text \<open>
  The buffer is the list of the rows from the top, a row the list of its pixels, a pixel
  its three channels.
\<close>

definition render_rows :: "camera \<Rightarrow> scene \<Rightarrow> int \<Rightarrow> int \<Rightarrow> error + 8 word list list list" where
  "render_rows cam sc w h =
     for_each (\<lambda>y. for_each (\<lambda>x. render_pixel cam sc w h x y) [0..<nat w]) [0..<nat h]"

text \<open>The materials, spheres, lights and camera that \<open>render_scene\<close> builds.\<close>

definition plastic_red :: material where
  "plastic_red = Material (Vector3 1.0 0.0 0.0) (Vector3 1.0 1.0 1.0) None 64 0.05 0.0 1.0 (0, 0, 0)"

definition glass_blue :: material where
  "glass_blue = Material (Vector3 0.1 0.2 0.9) (Vector3 1.0 1.0 1.0) None 128 0.1 0.9 1.52 (0, 0, 0)"

definition chrome_silver :: material where
  "chrome_silver = Material (Vector3 0.6 0.6 0.6) (Vector3 1.0 1.0 1.0) None 256 0.9 0.0 1.0 (0, 0, 0)"

definition sphere1 :: sphere where
  "sphere1 = \<lparr>center = Vector3 0 0 6, radius = 1.0, material = glass_blue\<rparr>"

definition sphere2 :: sphere where
  "sphere2 = \<lparr>center = Vector3 (- 1.8) (- 0.5) 4.5, radius = 0.7, material = plastic_red\<rparr>"

definition sphere3 :: sphere where
  "sphere3 = \<lparr>center = Vector3 1.8 (- 0.5) 5, radius = 0.7, material = chrome_silver\<rparr>"

definition light1 :: light where
  "light1 = \<lparr>light.position = Vector3 5 5 (- 2), color = Vector3 1 1 1, intensity = 1.2\<rparr>"

definition light2 :: light where
  "light2 = \<lparr>light.position = Vector3 (- 4) 2 (- 1), color = Vector3 0.6 0.6 1, intensity = 0.5\<rparr>"

definition light3 :: light where
  "light3 = \<lparr>light.position = Vector3 0 5 10, color = Vector3 1 1 1, intensity = 0.3\<rparr>"

definition the_scene :: scene where
  "the_scene = \<lparr>lighting = [light1, light2, light3], objects = [sphere1, sphere2, sphere3]\<rparr>"

definition the_camera :: "error + camera" where
  "the_camera = Camera (Vector3 0 0 0) (Vector3 0 0 5) 75 1000 800"

definition render_scene :: "error + 8 word list list list" where
  "render_scene =
     (case the_camera of
        Inl e \<Rightarrow> Inl e
      | Inr cam \<Rightarrow> render_rows cam the_scene 1000 800)"

section \<open>The specification's terms\<close>

text \<open>
  The quadratic of the specification of \<open>intersect\<close>: \<open>a t\<^sup>2 + b t + c = 0\<close> with
  \<open>a = dir \<cdot> dir\<close>, \<open>b = 2 (origin - center) \<cdot> dir\<close>,
  \<open>c = (origin - center) \<cdot> (origin - center) - radius\<^sup>2\<close>, its discriminant, its two
  roots, and the result the specification gives: none below a zero discriminant, else
  the smaller root if it exceeds 0.001, else the larger one if it does, else none.
\<close>

definition quad_a :: "ray \<Rightarrow> real" where
  "quad_a r = dot (direction r) (direction r)"

definition quad_b :: "sphere \<Rightarrow> ray \<Rightarrow> real" where
  "quad_b s r = 2 * dot (sub (origin r) (center s)) (direction r)"

definition quad_c :: "sphere \<Rightarrow> ray \<Rightarrow> real" where
  "quad_c s r = dot (sub (origin r) (center s)) (sub (origin r) (center s)) - (radius s)\<^sup>2"

definition discriminant :: "sphere \<Rightarrow> ray \<Rightarrow> real" where
  "discriminant s r = (quad_b s r)\<^sup>2 - 4 * quad_a r * quad_c s r"

definition root1 :: "sphere \<Rightarrow> ray \<Rightarrow> real" where
  "root1 s r = (- quad_b s r - sqrt (discriminant s r)) / (2 * quad_a r)"

definition root2 :: "sphere \<Rightarrow> ray \<Rightarrow> real" where
  "root2 s r = (- quad_b s r + sqrt (discriminant s r)) / (2 * quad_a r)"

definition intersect_spec :: "sphere \<Rightarrow> ray \<Rightarrow> real option" where
  "intersect_spec s r =
     (if discriminant s r < 0 then None
      else if root1 s r > 0.001 then Some (root1 s r)
      else if root2 s r > 0.001 then Some (root2 s r)
      else None)"

text \<open>
  The local colour of the specification: for one light, the diffuse colour times the
  light's colour scaled by \<open>max(normal \<cdot> light_dir, 0)\<close>, plus the specular colour
  times the light's colour scaled by \<open>max(reflect_dir \<cdot> view_dir, 0)\<close> to the power of
  the shininess; the local colour is the sum over the lights.
\<close>

definition light_contribution :: "sphere \<Rightarrow> vector3 \<Rightarrow> ray \<Rightarrow> light \<Rightarrow> vector3" where
  "light_contribution obj hit_point r l =
     (let normal = normal_vector obj hit_point;
          light_dir = normalize (sub (light.position l) hit_point);
          view_dir = neg (normalize (direction r));
          reflect_dir = reflect (neg view_dir) normal
      in add (mul_num (mul_vec (diffuse_color (material obj)) (light.color l))
                (max (dot normal light_dir) 0))
             (mul_num (mul_vec (specular_color (material obj)) (light.color l))
                (max (dot reflect_dir view_dir) 0 ^ shininess (material obj))))"

fun vsum :: "vector3 list \<Rightarrow> vector3" where
  "vsum [] = Vector3 0 0 0"
| "vsum (v # vs) = add v (vsum vs)"

definition local_color :: "sphere \<Rightarrow> vector3 \<Rightarrow> ray \<Rightarrow> light list \<Rightarrow> vector3" where
  "local_color obj hit_point r ls = vsum (map (light_contribution obj hit_point r) ls)"

text \<open>The reflection ray of the specification.\<close>

definition reflection_ray :: "sphere \<Rightarrow> vector3 \<Rightarrow> ray \<Rightarrow> ray" where
  "reflection_ray obj hit_point r =
     \<lparr>origin = add hit_point (mul_num (normal_vector obj hit_point) 0.01),
      direction = reflect (direction r) (normal_vector obj hit_point)\<rparr>"

text \<open>
  The camera ray of the sub-sample \<open>(sx, sy)\<close> of the pixel \<open>(x, y)\<close> in the words of
  the specification: \<open>u = (x + (sx + 0.5) / 2) / width\<close>,
  \<open>v = (y + (sy + 0.5) / 2) / height\<close>, for the 1000 by 800 image.
\<close>

definition subsample_ray :: "camera \<Rightarrow> nat \<Rightarrow> nat \<Rightarrow> nat \<Rightarrow> nat \<Rightarrow> ray" where
  "subsample_ray cam x y sx sy =
     get_ray cam ((real x + (real sx + 0.5) / 2) / 1000) ((real y + (real sy + 0.5) / 2) / 800)"

text \<open>
  What it is for the objects of a store \<open>h\<close> to be unchanged in a later store \<open>h'\<close>:
  \<open>h'\<close> begins with \<open>h\<close>.
\<close>

definition kept :: "store \<Rightarrow> store \<Rightarrow> bool" where
  "kept h h' = (take (length h) h' = h)"

text \<open>
  The coefficients of the quadratic as \<open>intersect\<close> computes them under an arithmetic,
  the two roots as it computes them from \<open>a\<close>, \<open>b\<close> and the discriminant \<open>d\<close>, and
  the result the specification gives from them.
\<close>

definition coeff_a :: "arith \<Rightarrow> ray \<Rightarrow> real" where
  "coeff_a ar r = fdot ar (direction r) (direction r)"

definition coeff_b :: "arith \<Rightarrow> sphere \<Rightarrow> ray \<Rightarrow> real" where
  "coeff_b ar s r = 2 * fdot ar (sub (origin r) (center s)) (direction r)"

definition coeff_c :: "arith \<Rightarrow> sphere \<Rightarrow> ray \<Rightarrow> real \<Rightarrow> real" where
  "coeff_c ar s r radius2 = fdot ar (sub (origin r) (center s)) (sub (origin r) (center s)) - radius2"

definition root_lo :: "real \<Rightarrow> real \<Rightarrow> real \<Rightarrow> real" where
  "root_lo a b d = (- b - sqrt d) / (2 * a)"

definition root_hi :: "real \<Rightarrow> real \<Rightarrow> real \<Rightarrow> real" where
  "root_hi a b d = (- b + sqrt d) / (2 * a)"

definition accepted :: "real \<Rightarrow> real \<Rightarrow> real \<Rightarrow> real option" where
  "accepted a b d =
     (if d < 0 then None
      else if root_lo a b d > 0.001 then Some (root_lo a b d)
      else if root_hi a b d > 0.001 then Some (root_hi a b d)
      else None)"











section \<open>Example data\<close>

text \<open>
  \<open>Material()\<close> with every default; spheres of radius 1 on the \<open>z\<close> axis, rays from
  the origin, a ray whose direction is the zero vector, and small scenes of them.
\<close>

definition default_material :: material where
  "default_material = Material (Vector3 1 1 1) (Vector3 1 1 1) None 32 0.0 0.0 1.0 (0, 0, 0)"

definition sphere_ahead :: sphere where
  "sphere_ahead = \<lparr>center = Vector3 0 0 5, radius = 1, material = plastic_red\<rparr>"


definition sphere_mirror :: sphere where
  "sphere_mirror = \<lparr>center = Vector3 0 0 5, radius = 1, material = chrome_silver\<rparr>"

definition sphere_behind :: sphere where
  "sphere_behind = \<lparr>center = Vector3 0 0 (- 5), radius = 1, material = default_material\<rparr>"

definition ray_ahead :: ray where
  "ray_ahead = \<lparr>origin = Vector3 0 0 0, direction = Vector3 0 0 1\<rparr>"

definition ray_upward :: ray where
  "ray_upward = \<lparr>origin = Vector3 0 0 0, direction = Vector3 0 1 0\<rparr>"


definition ray_back :: ray where
  "ray_back = \<lparr>origin = Vector3 0 0 3.99, direction = Vector3 0 0 (- 1)\<rparr>"

definition ray_still :: ray where
  "ray_still = \<lparr>origin = Vector3 0 0 0, direction = Vector3 0 0 0\<rparr>"

definition light_at_origin :: light where
  "light_at_origin = \<lparr>light.position = Vector3 0 0 0, color = Vector3 1 1 1, intensity = 1.0\<rparr>"

definition light_above :: light where
  "light_above = \<lparr>light.position = Vector3 0 5 10, color = Vector3 1 1 1, intensity = 0.3\<rparr>"


definition lit_sphere :: scene where
  "lit_sphere = \<lparr>lighting = [light_at_origin], objects = [sphere_ahead]\<rparr>"

definition facing_spheres :: scene where
  "facing_spheres = \<lparr>lighting = [light_at_origin], objects = [sphere_mirror, sphere_behind]\<rparr>"

definition ray_tiny :: ray where
  "ray_tiny = \<lparr>origin = Vector3 0 0 0, direction = Vector3 (2 powr (- 600)) 0 0\<rparr>"










text \<open>
  An addition that raises TypeError when its second operand is \<open>v\<close> and adds otherwise,
  and a blue light beside the white one.
\<close>

definition add_unless :: "vector3 \<Rightarrow> adder" where
  "add_unless v a b = (if b = v then Inl TypeError else Inr (add a b))"

definition light_blue :: light where
  "light_blue = \<lparr>light.position = Vector3 0 0 0, color = Vector3 0 0 1, intensity = 1.0\<rparr>"

section \<open>Properties\<close>

subsection \<open>The exact arithmetic\<close>

lemma fdot_exact: "fdot exact = dot"
  by (simp add: exact_def)

lemma fsquare_exact: "fsquare exact x = Inr (x\<^sup>2)"
  by (simp add: exact_def)

lemma intersect_exact:
  "intersect self r =
     (let oc = sub (origin r) (center self);
          a = dot (direction r) (direction r);
          b = 2 * dot oc (direction r);
          c = dot oc oc - (radius self)\<^sup>2;
          d = b\<^sup>2 - 4 * a * c
      in if d < 0 then Inr None
         else let sq = sqrt d
              in if 2 * a = 0 then Inl ZeroDivisionError
                 else let t1 = (- b - sq) / (2 * a);
                          t2 = (- b + sq) / (2 * a)
                      in if t1 > 0.001 then Inr (Some t1)
                         else if t2 > 0.001 then Inr (Some t2)
                         else Inr None)"
  by (simp add: intersect_def intersect_with_def fdot_exact fsquare_exact Let_def)

lemma hit_loop_Nil [simp]: "hit_loop r [] closest = Inr closest"
  by (simp add: hit_loop_def)

lemma hit_loop_Cons [simp]:
  "hit_loop r (obj # rest) closest =
     (case intersect obj r of
        Inl e \<Rightarrow> Inl e
      | Inr None \<Rightarrow> hit_loop r rest closest
      | Inr (Some t) \<Rightarrow>
          if (case closest of None \<Rightarrow> True | Some (closest_t, closest_obj) \<Rightarrow> t < closest_t)
          then hit_loop r rest (Some (t, obj))
          else hit_loop r rest closest)"
  unfolding hit_loop_def intersect_def by simp

lemma hit_exact:
  "hit self r =
     (case hit_loop r (objects self) None of
        Inl e \<Rightarrow> Inl e
      | Inr None \<Rightarrow> Inr None
      | Inr (Some (closest_t, closest_obj)) \<Rightarrow> Inr (Some (point r closest_t, closest_obj)))"
  by (simp add: hit_def hit_with_def hit_loop_def)

subsection \<open>Sphere.intersect\<close>

lemma dot_self_pos: "v \<noteq> Vector3 0 0 0 \<Longrightarrow> 0 < dot v v"
proof (cases v)
  case (Vector3 a b c)
  assume "v \<noteq> Vector3 0 0 0"
  with Vector3 have "a \<noteq> 0 \<or> b \<noteq> 0 \<or> c \<noteq> 0" by simp
  then have "0 < a * a + b * b + c * c"
    by (metis add_pos_nonneg add_nonneg_pos zero_le_square not_real_square_gt_zero add_nonneg_nonneg)
  with Vector3 show ?thesis by (simp add: dot_def)
qed

lemma dot_zero_left: "dot (Vector3 0 0 0) v = 0"
  by (simp add: dot_def)

lemma dot_zero_right: "dot v (Vector3 0 0 0) = 0"
  by (simp add: dot_def)

lemma intersect_unfold:
  "intersect s r =
     (if discriminant s r < 0 then Inr None
      else if quad_a r = 0 then Inl ZeroDivisionError
      else Inr (intersect_spec s r))"
  by (simp add: intersect_exact intersect_spec_def root1_def root2_def discriminant_def
      quad_a_def quad_b_def quad_c_def Let_def)

lemma roots_ordered:
  assumes "0 < quad_a r" "0 \<le> discriminant s r"
  shows "root1 s r \<le> root2 s r"
proof -
  have "- quad_b s r - sqrt (discriminant s r) \<le> - quad_b s r + sqrt (discriminant s r)"
    using assms(2) by simp
  then show ?thesis
    unfolding root1_def root2_def using assms(1) by (simp add: divide_right_mono)
qed

lemma quadratic_root:
  fixes a b c s t :: real
  assumes "a \<noteq> 0" "s * s = b * b - 4 * a * c" "t = (- b + s) / (2 * a)"
  shows "a * t\<^sup>2 + b * t + c = 0"
proof -
  have "2 * a * t = - b + s" using assms(1,3) by simp
  then have "(2 * a * t + b) * (2 * a * t + b) = b * b - 4 * a * c"
    using assms(2) by simp
  then have "4 * a * (a * t\<^sup>2 + b * t + c) = 0"
    by (simp add: algebra_simps power2_eq_square)
  with assms(1) show ?thesis by simp
qed

lemma root1_is_root:
  assumes "0 < quad_a r" "0 \<le> discriminant s r"
  shows "quad_a r * (root1 s r)\<^sup>2 + quad_b s r * root1 s r + quad_c s r = 0"
proof (rule quadratic_root [where s = "- sqrt (discriminant s r)"])
  show "quad_a r \<noteq> 0" using assms(1) by simp
  show "- sqrt (discriminant s r) * - sqrt (discriminant s r)
      = quad_b s r * quad_b s r - 4 * quad_a r * quad_c s r"
    using assms(2) by (simp add: discriminant_def power2_eq_square)
  show "root1 s r = (- quad_b s r + - sqrt (discriminant s r)) / (2 * quad_a r)"
    by (simp add: root1_def)
qed

lemma root2_is_root:
  assumes "0 < quad_a r" "0 \<le> discriminant s r"
  shows "quad_a r * (root2 s r)\<^sup>2 + quad_b s r * root2 s r + quad_c s r = 0"
proof (rule quadratic_root [where s = "sqrt (discriminant s r)"])
  show "quad_a r \<noteq> 0" using assms(1) by simp
  show "sqrt (discriminant s r) * sqrt (discriminant s r)
      = quad_b s r * quad_b s r - 4 * quad_a r * quad_c s r"
    using assms(2) by (simp add: discriminant_def power2_eq_square)
  show "root2 s r = (- quad_b s r + sqrt (discriminant s r)) / (2 * quad_a r)"
    by (simp add: root2_def)
qed

lemmas quad_defs = quad_a_def quad_b_def quad_c_def discriminant_def root1_def root2_def

lemmas example_defs = sphere_ahead_def ray_ahead_def ray_upward_def ray_still_def

lemma quad_a_pos: "direction r \<noteq> Vector3 0 0 0 \<Longrightarrow> 0 < quad_a r"
  by (simp add: quad_a_def dot_self_pos)

lemma discriminant_still: "direction r = Vector3 0 0 0 \<Longrightarrow> discriminant s r = 0"
  by (simp add: discriminant_def quad_a_def quad_b_def dot_zero_left dot_zero_right)

lemma intersect_gt_eps: "intersect s r = Inr (Some t) \<Longrightarrow> 0.001 < t"
  by (auto simp: intersect_unfold intersect_spec_def split: if_splits)

lemma sphere_ahead_ray_ahead:
  "quad_a ray_ahead = 1" "quad_b sphere_ahead ray_ahead = - 10" "quad_c sphere_ahead ray_ahead = 24"
  "discriminant sphere_ahead ray_ahead = 4"
  by (simp_all add: quad_defs example_defs dot_def sub_def)

lemma sphere_ahead_ray_upward:
  "discriminant sphere_ahead ray_upward = - 96"
  by (simp_all add: quad_defs example_defs dot_def sub_def)

text \<open>
  Claim C1 as stated, for every ray, fails at a ray whose direction is the zero vector:
  the discriminant is 0, not negative, and the division by \<open>2 * a = 0\<close> raises.
\<close>

theorem intersect_still_ray_counterexample:
  "discriminant sphere_ahead ray_still = 0
   \<and> intersect sphere_ahead ray_still = Inl ZeroDivisionError
   \<and> intersect sphere_ahead ray_still \<noteq> Inr (intersect_spec sphere_ahead ray_still)"
  by (simp add: intersect_unfold discriminant_still quad_a_def dot_zero_left ray_still_def)

subsection \<open>Sphere.intersect under any arithmetic\<close>

lemma intersect_with_unfold:
  assumes "fsquare ar (radius s) = Inr r2" "fsquare ar (coeff_b ar s r) = Inr b2"
  shows "intersect_with ar s r =
     (if b2 - 4 * coeff_a ar r * coeff_c ar s r r2 < 0 then Inr None
      else if coeff_a ar r = 0 then Inl ZeroDivisionError
      else Inr (accepted (coeff_a ar r) (coeff_b ar s r)
                  (b2 - 4 * coeff_a ar r * coeff_c ar s r r2)))"
  using assms
  by (simp add: intersect_with_def coeff_a_def coeff_b_def coeff_c_def accepted_def root_lo_def
      root_hi_def Let_def)

lemma intersect_with_gt_eps: "intersect_with ar s r = Inr (Some t) \<Longrightarrow> 0.001 < t"
  by (auto simp: intersect_with_def Let_def split: sum.splits if_splits)

lemma root_lo_le_hi:
  assumes "0 < a" "0 \<le> d"
  shows "root_lo a b d \<le> root_hi a b d"
proof -
  have "- b - sqrt d \<le> - b + sqrt d" using assms(2) by simp
  then show ?thesis
    unfolding root_lo_def root_hi_def using assms(1) by (simp add: divide_right_mono)
qed

lemma root_lo_solves:
  assumes "a \<noteq> 0" "0 \<le> b\<^sup>2 - 4 * a * c"
  shows "a * (root_lo a b (b\<^sup>2 - 4 * a * c))\<^sup>2 + b * root_lo a b (b\<^sup>2 - 4 * a * c) + c = 0"
proof (rule quadratic_root [where s = "- sqrt (b\<^sup>2 - 4 * a * c)"])
  show "a \<noteq> 0" by fact
  show "- sqrt (b\<^sup>2 - 4 * a * c) * - sqrt (b\<^sup>2 - 4 * a * c) = b * b - 4 * a * c"
    using assms(2) by (simp add: power2_eq_square)
  show "root_lo a b (b\<^sup>2 - 4 * a * c) = (- b + - sqrt (b\<^sup>2 - 4 * a * c)) / (2 * a)"
    by (simp add: root_lo_def)
qed

lemma root_hi_solves:
  assumes "a \<noteq> 0" "0 \<le> b\<^sup>2 - 4 * a * c"
  shows "a * (root_hi a b (b\<^sup>2 - 4 * a * c))\<^sup>2 + b * root_hi a b (b\<^sup>2 - 4 * a * c) + c = 0"
proof (rule quadratic_root [where s = "sqrt (b\<^sup>2 - 4 * a * c)"])
  show "a \<noteq> 0" by fact
  show "sqrt (b\<^sup>2 - 4 * a * c) * sqrt (b\<^sup>2 - 4 * a * c) = b * b - 4 * a * c"
    using assms(2) by (simp add: power2_eq_square)
  show "root_hi a b (b\<^sup>2 - 4 * a * c) = (- b + sqrt (b\<^sup>2 - 4 * a * c)) / (2 * a)"
    by (simp add: root_hi_def)
qed

text \<open>
  Claim C1, as the code has it. Under any arithmetic of the floats, for every sphere and
  every ray for which \<open>radius ** 2\<close> and \<open>b ** 2\<close> do not raise and the computed
  \<open>a = direction \<cdot> direction\<close> is not 0, \<open>intersect\<close> returns no hit if the discriminant
  it computed is negative, else the root \<open>(-b - sqrt d) / (2 a)\<close> if it exceeds 0.001,
  else the root \<open>(-b + sqrt d) / (2 a)\<close> if it exceeds 0.001, else no hit. For \<open>a > 0\<close>
  the first root is the smaller one, and where the square of \<open>b\<close> is exact both solve
  \<open>a t\<^sup>2 + b t + c = 0\<close>. For every ray, a returned \<open>t\<close> exceeds 0.001.
\<close>

theorem intersect_accepts_roots:
  "(fsquare ar (radius s) = Inr r2 \<and> fsquare ar (coeff_b ar s r) = Inr b2
      \<and> coeff_a ar r \<noteq> 0 \<longrightarrow>
      intersect_with ar s r =
        Inr (accepted (coeff_a ar r) (coeff_b ar s r) (b2 - 4 * coeff_a ar r * coeff_c ar s r r2)))
   \<and> (0 < a \<and> 0 \<le> d \<longrightarrow> root_lo a b d \<le> root_hi a b d)
   \<and> (a \<noteq> 0 \<and> 0 \<le> b\<^sup>2 - 4 * a * c \<longrightarrow>
        a * (root_lo a b (b\<^sup>2 - 4 * a * c))\<^sup>2 + b * root_lo a b (b\<^sup>2 - 4 * a * c) + c = 0
        \<and> a * (root_hi a b (b\<^sup>2 - 4 * a * c))\<^sup>2 + b * root_hi a b (b\<^sup>2 - 4 * a * c) + c = 0)
   \<and> (\<forall>t. intersect_with ar s r = Inr (Some t) \<longrightarrow> 0.001 < t)
   \<and> intersect s r = intersect_with exact s r"
proof (intro conjI impI allI)
  assume "fsquare ar (radius s) = Inr r2 \<and> fsquare ar (coeff_b ar s r) = Inr b2
      \<and> coeff_a ar r \<noteq> 0"
  then show "intersect_with ar s r =
        Inr (accepted (coeff_a ar r) (coeff_b ar s r) (b2 - 4 * coeff_a ar r * coeff_c ar s r r2))"
    by (simp add: intersect_with_unfold accepted_def)
next
  assume "0 < a \<and> 0 \<le> d"
  then show "root_lo a b d \<le> root_hi a b d" by (simp add: root_lo_le_hi)
next
  assume h: "a \<noteq> 0 \<and> 0 \<le> b\<^sup>2 - 4 * a * c"
  then show "a * (root_lo a b (b\<^sup>2 - 4 * a * c))\<^sup>2 + b * root_lo a b (b\<^sup>2 - 4 * a * c) + c = 0"
    by (simp add: root_lo_solves)
  from h show "a * (root_hi a b (b\<^sup>2 - 4 * a * c))\<^sup>2 + b * root_hi a b (b\<^sup>2 - 4 * a * c) + c = 0"
    by (simp add: root_hi_solves)
next
  fix t assume "intersect_with ar s r = Inr (Some t)"
  then show "0.001 < t" by (rule intersect_with_gt_eps)
next
  show "intersect s r = intersect_with exact s r" by (simp add: intersect_def)
qed

theorem intersect_accepts_roots_witness:
  "fsquare exact (radius sphere_ahead) = Inr 1
   \<and> fsquare exact (coeff_b exact sphere_ahead ray_ahead) = Inr 100
   \<and> coeff_a exact ray_ahead \<noteq> 0
   \<and> intersect_with exact sphere_ahead ray_ahead = Inr (Some 4)
   \<and> root_lo 1 (- 10) 4 = 4 \<and> root_hi 1 (- 10) 4 = 6
   \<and> intersect sphere_ahead ray_ahead = Inr (Some 4)
   \<and> fsquare exact (coeff_b exact sphere_ahead ray_upward) = Inr 0
   \<and> coeff_a exact ray_upward \<noteq> 0
   \<and> intersect_with exact sphere_ahead ray_upward = Inr None"
proof -
  have v: "radius sphere_ahead = 1" "coeff_a exact ray_ahead = 1"
    "coeff_b exact sphere_ahead ray_ahead = - 10" "coeff_c exact sphere_ahead ray_ahead 1 = 24"
    "coeff_a exact ray_upward = 1" "coeff_b exact sphere_ahead ray_upward = 0"
    "coeff_c exact sphere_ahead ray_upward 1 = 24"
    by (simp_all add: coeff_a_def coeff_b_def coeff_c_def fdot_exact example_defs dot_def sub_def)
  have lo: "root_lo 1 (- 10) 4 = 4" and hi: "root_hi 1 (- 10) 4 = 6"
    by (simp_all add: root_lo_def root_hi_def)
  from intersect_accepts_roots [of exact sphere_ahead 1 ray_ahead 100 1 4 "- 10" 24]
    intersect_accepts_roots [of exact sphere_ahead 1 ray_upward 0 1 4 "- 10" 24]
  show ?thesis
    by (simp add: v fsquare_exact accepted_def lo hi)
qed

subsection \<open>The doubles\<close>

lemma round_half_even_small:
  assumes "\<bar>y\<bar> \<le> 1 / 2"
  shows "round_half_even y = 0"
proof (cases "0 \<le> y")
  case True
  with assms have "\<lfloor>y\<rfloor> = 0" by (simp add: floor_eq_iff)
  with assms True show ?thesis by (simp add: round_half_even_def Let_def)
next
  case False
  with assms have f: "\<lfloor>y\<rfloor> = - 1" by (simp add: floor_eq_iff)
  from assms False have "1 / 2 \<le> y + 1" by simp
  with f show ?thesis by (simp add: round_half_even_def Let_def)
qed

lemma to_double_zero: "to_double 0 = 0"
  by (simp add: to_double_def)

lemma to_double_underflow:
  assumes "\<bar>x\<bar> \<le> 2 powr (- 1075)"
  shows "to_double x = 0"
proof (cases "x = 0")
  case True
  then show ?thesis by (simp add: to_double_def)
next
  case False
  then have pos: "0 < \<bar>x\<bar>" by simp
  have "log 2 \<bar>x\<bar> \<le> log 2 (2 powr (- 1075))"
    by (rule log_mono) (use pos assms in simp_all)
  then have "log 2 \<bar>x\<bar> \<le> - 1075" by simp
  then have "\<lfloor>log 2 \<bar>x\<bar>\<rfloor> \<le> - 1075" by (simp add: floor_le_iff)
  then have e: "max \<lfloor>log 2 \<bar>x\<bar>\<rfloor> (- 1022) = - 1022" by simp
  have "\<bar>x / 2 powr (- 1074)\<bar> = \<bar>x\<bar> / 2 powr (- 1074)" by simp
  also have "\<dots> \<le> 2 powr (- 1075) / 2 powr (- 1074)"
    using assms by (simp add: divide_right_mono)
  also have "\<dots> = 2 powr (- 1)" by (simp add: powr_diff [symmetric])
  also have "\<dots> = 1 / 2" by (simp add: powr_minus_divide)
  finally have "round_half_even (x / 2 powr (- 1074)) = 0" by (rule round_half_even_small)
  with False e show ?thesis by (simp add: to_double_def Let_def)
qed

lemma dot_double_zero_right: "dot_double v (Vector3 0 0 0) = 0"
  by (simp add: dot_double_def fmul_def fadd_def to_double_zero)

lemma square_double_zero: "square_double 0 = Inr 0"
  by (simp add: square_double_def to_double_zero)

lemma tiny_underflows: "fmul (2 powr (- 600)) (2 powr (- 600)) = 0"
proof -
  have "(2::real) powr (- 600) * 2 powr (- 600) = 2 powr (- 1200)"
    by (simp add: powr_add [symmetric])
  moreover have "\<bar>(2::real) powr (- 1200)\<bar> \<le> 2 powr (- 1075)" by simp
  ultimately show ?thesis by (simp add: fmul_def to_double_underflow)
qed

lemma coeff_a_ray_tiny: "coeff_a doubles ray_tiny = 0"
  by (simp add: coeff_a_def doubles_def ray_tiny_def dot_double_def tiny_underflows)
     (simp add: fmul_def fadd_def to_double_zero)

text \<open>
  Claim C10, as the code has it. \<open>intersect\<close> divides by \<open>2 * a\<close> with no guard on
  \<open>a = 0\<close>. Under any arithmetic of the floats, where the squares do not raise: if the
  computed \<open>a\<close> is not 0, \<open>intersect\<close> returns; if it is 0 the discriminant is the
  square of \<open>b\<close>, which is not negative, and the division raises ZeroDivisionError. For
  a ray whose direction is the zero vector \<open>a\<close> is 0 and the discriminant is 0, in the
  exact arithmetic and in that of the doubles, and \<open>intersect\<close> raises.
\<close>

theorem intersect_division:
  "(fsquare ar (radius s) = Inr r2 \<and> fsquare ar (coeff_b ar s r) = Inr b2
      \<and> coeff_a ar r \<noteq> 0 \<longrightarrow> (\<exists>res. intersect_with ar s r = Inr res))
   \<and> (fsquare ar (radius s) = Inr r2 \<and> fsquare ar (coeff_b ar s r) = Inr b2
      \<and> coeff_a ar r = 0 \<and> 0 \<le> b2 \<longrightarrow> intersect_with ar s r = Inl ZeroDivisionError)
   \<and> (direction r = Vector3 0 0 0 \<longrightarrow>
        coeff_a exact r = 0 \<and> discriminant s r = 0 \<and> intersect s r = Inl ZeroDivisionError)
   \<and> (direction r = Vector3 0 0 0 \<and> fsquare doubles (radius s) = Inr r2 \<longrightarrow>
        coeff_a doubles r = 0 \<and> fsquare doubles (coeff_b doubles s r) = Inr 0
        \<and> intersect_with doubles s r = Inl ZeroDivisionError)"
proof (intro conjI impI)
  assume "fsquare ar (radius s) = Inr r2 \<and> fsquare ar (coeff_b ar s r) = Inr b2
      \<and> coeff_a ar r \<noteq> 0"
  then show "\<exists>res. intersect_with ar s r = Inr res"
    by (simp add: intersect_with_unfold)
next
  assume "fsquare ar (radius s) = Inr r2 \<and> fsquare ar (coeff_b ar s r) = Inr b2
      \<and> coeff_a ar r = 0 \<and> 0 \<le> b2"
  then show "intersect_with ar s r = Inl ZeroDivisionError"
    by (simp add: intersect_with_unfold)
next
  assume z: "direction r = Vector3 0 0 0"
  then show "coeff_a exact r = 0" by (simp add: coeff_a_def fdot_exact dot_zero_left)
  from z show "discriminant s r = 0" by (rule discriminant_still)
  then show "intersect s r = Inl ZeroDivisionError"
    using z by (simp add: intersect_unfold quad_a_def dot_zero_left)
next
  assume h: "direction r = Vector3 0 0 0 \<and> fsquare doubles (radius s) = Inr r2"
  then show a: "coeff_a doubles r = 0"
    by (simp add: coeff_a_def doubles_def dot_double_zero_right)
  from h have b: "coeff_b doubles s r = 0"
    by (simp add: coeff_b_def doubles_def dot_double_zero_right)
  then show b2: "fsquare doubles (coeff_b doubles s r) = Inr 0"
    by (simp add: doubles_def square_double_zero)
  from h a b2 show "intersect_with doubles s r = Inl ZeroDivisionError"
    by (simp add: intersect_with_unfold)
qed

theorem intersect_division_witness:
  "fsquare exact (radius sphere_ahead) = Inr 1
   \<and> fsquare exact (coeff_b exact sphere_ahead ray_ahead) = Inr 100
   \<and> coeff_a exact ray_ahead \<noteq> 0
   \<and> (\<exists>res. intersect_with exact sphere_ahead ray_ahead = Inr res)
   \<and> fsquare exact (coeff_b exact sphere_ahead ray_still) = Inr 0
   \<and> coeff_a exact ray_still = 0 \<and> (0::real) \<le> 0
   \<and> intersect_with exact sphere_ahead ray_still = Inl ZeroDivisionError
   \<and> direction ray_still = Vector3 0 0 0
   \<and> discriminant sphere_ahead ray_still = 0
   \<and> intersect sphere_ahead ray_still = Inl ZeroDivisionError"
proof -
  have v: "radius sphere_ahead = 1" "coeff_a exact ray_ahead = 1"
    "coeff_b exact sphere_ahead ray_ahead = - 10" "coeff_a exact ray_still = 0"
    "coeff_b exact sphere_ahead ray_still = 0" "direction ray_still = Vector3 0 0 0"
    by (simp_all add: coeff_a_def coeff_b_def fdot_exact example_defs dot_def sub_def)
  from intersect_division [of exact sphere_ahead 1 ray_ahead 100]
    intersect_division [of exact sphere_ahead 1 ray_still 0]
  show ?thesis by (simp add: v fsquare_exact)
qed

text \<open>
  Claim C10 as stated fails for a direction that is not the zero vector: in the
  arithmetic of the doubles the direction \<open>(2\<^bsup>-600\<^esup>, 0, 0)\<close> has \<open>a = 0\<close>, because
  its square \<open>2\<^bsup>-1200\<^esup>\<close> underflows, and the division raises.
\<close>

theorem intersect_underflow_counterexample:
  "direction ray_tiny \<noteq> Vector3 0 0 0
   \<and> coeff_a doubles ray_tiny = 0
   \<and> intersect_with doubles sphere_ahead ray_tiny = Inl ZeroDivisionError"
proof -
  have nz: "direction ray_tiny \<noteq> Vector3 0 0 0" by (simp add: ray_tiny_def)
  have r2: "fsquare doubles (radius sphere_ahead) = Inr (to_double 1)"
    by (simp add: doubles_def square_double_def sphere_ahead_def)
  have b: "coeff_b doubles sphere_ahead ray_tiny = 0"
    by (simp add: coeff_b_def doubles_def ray_tiny_def dot_double_def fmul_def fadd_def
        to_double_zero sub_def sphere_ahead_def)
  then have b2: "fsquare doubles (coeff_b doubles sphere_ahead ray_tiny) = Inr 0"
    by (simp add: doubles_def square_double_zero)
  from nz coeff_a_ray_tiny intersect_with_unfold [OF r2 b2] show ?thesis by simp
qed

lemma square_double_overflows: "square_double (2 ^ 600) = Inl OverflowError"
  by (simp add: square_double_def)

lemma intersect_with_overflow:
  assumes "radius s = 2 ^ 600"
  shows "intersect_with doubles s r = Inl OverflowError"
proof -
  have "fsquare doubles (radius s) = Inl OverflowError"
    unfolding assms by (simp only: doubles_def arith.simps square_double_overflows)
  then show ?thesis by (simp add: intersect_with_def Let_def)
qed

subsection \<open>Scene.hit\<close>

lemma intersect_returns: "direction r \<noteq> Vector3 0 0 0 \<Longrightarrow> intersect s r = Inr (intersect_spec s r)"
  using quad_a_pos [of r] by (simp add: intersect_unfold intersect_spec_def)

lemma hit_loop_returns:
  "direction r \<noteq> Vector3 0 0 0 \<Longrightarrow> \<exists>res. hit_loop r objs closest = Inr res"
  by (induction objs arbitrary: closest) (simp_all add: intersect_returns split: option.split)

lemma hit_loop_None:
  "hit_loop r objs closest = Inr None \<Longrightarrow>
     closest = None \<and> (\<forall>s\<in>set objs. intersect s r = Inr None)"
proof (induction objs arbitrary: closest)
  case Nil
  then show ?case by simp
next
  case (Cons obj rest)
  show ?case
  proof (cases "intersect obj r")
    case (Inl e)
    with Cons.prems show ?thesis by simp
  next
    case (Inr res)
    show ?thesis
    proof (cases res)
      case None
      with Inr Cons.prems Cons.IH [of closest] show ?thesis by simp
    next
      case (Some t)
      with Inr Cons.prems Cons.IH [of closest] Cons.IH [of "Some (t, obj)"] show ?thesis
        by (simp split: if_splits)
    qed
  qed
qed

lemma hit_loop_Some:
  "hit_loop r objs closest = Inr (Some (t, s)) \<Longrightarrow>
     (closest = Some (t, s) \<or> (s \<in> set objs \<and> intersect s r = Inr (Some t)))
     \<and> (\<forall>t' s'. closest = Some (t', s') \<longrightarrow> t \<le> t')
     \<and> (\<forall>s'\<in>set objs. \<forall>t'. intersect s' r = Inr (Some t') \<longrightarrow> t \<le> t')"
proof (induction objs arbitrary: closest)
  case Nil
  then show ?case by simp
next
  case (Cons obj rest)
  show ?case
  proof (cases "intersect obj r")
    case (Inl e)
    with Cons.prems show ?thesis by simp
  next
    case (Inr res)
    show ?thesis
    proof (cases res)
      case None
      with Inr Cons.prems have "hit_loop r rest closest = Inr (Some (t, s))" by simp
      from Cons.IH [OF this] None Inr show ?thesis by auto
    next
      case (Some u)
      show ?thesis
      proof (cases "case closest of None \<Rightarrow> True | Some (closest_t, closest_obj) \<Rightarrow> u < closest_t")
        case True
        with Inr Some Cons.prems have "hit_loop r rest (Some (u, obj)) = Inr (Some (t, s))"
          by simp
        from Cons.IH [OF this] True Inr Some show ?thesis
          by (auto split: option.splits)
      next
        case False
        with Inr Some Cons.prems have "hit_loop r rest closest = Inr (Some (t, s))"
          by simp
        from Cons.IH [OF this] False Inr Some show ?thesis
          by (auto split: option.splits)
      qed
    qed
  qed
qed


lemma sphere_ahead_ray_ahead_hit: "intersect sphere_ahead ray_ahead = Inr (Some 4)"
  by (simp add: intersect_exact sphere_ahead_def ray_ahead_def dot_def sub_def)


subsection \<open>Scene.hit under any arithmetic\<close>







subsection \<open>Directions that are not the zero vector\<close>

lemma length_vec_eq: "length_vec v = sqrt (dot v v)"
  by (simp add: length_vec_def dot_def power2_eq_square)

lemma length_vec_zero_iff: "length_vec v = 0 \<longleftrightarrow> v = Vector3 0 0 0"
proof
  assume "length_vec v = 0"
  then have "dot v v = 0" by (simp add: length_vec_eq)
  then show "v = Vector3 0 0 0" using dot_self_pos [of v] by force
next
  assume "v = Vector3 0 0 0"
  then show "length_vec v = 0" by (simp add: length_vec_eq dot_zero_left)
qed

lemma dot_normalize:
  assumes "v \<noteq> Vector3 0 0 0"
  shows "dot (normalize v) (normalize v) = 1"
proof -
  have pos: "0 < dot v v" using assms by (rule dot_self_pos)
  then have len: "length_vec v \<noteq> 0" "length_vec v * length_vec v = dot v v"
    by (simp_all add: length_vec_eq)
  have "dot (normalize v) (normalize v) = dot v v / (length_vec v * length_vec v)"
    using len(1) by (simp add: normalize_def dot_def Let_def add_divide_distrib)
  with len(2) pos show ?thesis by simp
qed

lemma normalize_zero: "normalize (Vector3 0 0 0) = Vector3 0 0 0"
  by (simp add: normalize_def length_vec_eq dot_zero_left)

lemma normalize_nonzero: "v \<noteq> Vector3 0 0 0 \<Longrightarrow> normalize v \<noteq> Vector3 0 0 0"
  using dot_normalize [of v] by (auto simp: dot_zero_left)

lemma reflect_zero_normal: "reflect d (Vector3 0 0 0) = d"
  by (cases d) (simp add: reflect_def sub_def mul_num_def)

lemma dot_reflect:
  assumes "dot n n = 1"
  shows "dot (reflect d n) (reflect d n) = dot d d"
proof -
  obtain a b c where d: "d = Vector3 a b c" by (cases d)
  obtain x y z where n: "n = Vector3 x y z" by (cases n)
  define k where "k = a * x + b * y + c * z"
  from assms n have unit: "x * x + y * y + z * z = 1" by (simp add: dot_def)
  have "dot (reflect d n) (reflect d n)
      = (a - x * (2 * k)) * (a - x * (2 * k)) + (b - y * (2 * k)) * (b - y * (2 * k))
        + (c - z * (2 * k)) * (c - z * (2 * k))"
    by (simp add: d n k_def reflect_def sub_def mul_num_def dot_def)
  also have "\<dots> = a * a + b * b + c * c - 4 * k * k + 4 * k * k * (x * x + y * y + z * z)"
    by (simp add: k_def algebra_simps)
  also have "\<dots> = a * a + b * b + c * c" by (simp add: unit)
  finally show ?thesis by (simp add: d dot_def)
qed

lemma reflect_nonzero:
  assumes "d \<noteq> Vector3 0 0 0"
  shows "reflect d (normalize v) \<noteq> Vector3 0 0 0"
proof (cases "v = Vector3 0 0 0")
  case True
  with assms show ?thesis by (simp add: normalize_zero reflect_zero_normal)
next
  case False
  then have "dot (reflect d (normalize v)) (reflect d (normalize v)) = dot d d"
    by (simp add: dot_reflect dot_normalize)
  with dot_self_pos [OF assms] show ?thesis by (auto simp: dot_zero_left)
qed

subsection \<open>Ray.color\<close>

lemma add_assoc: "add (add a b) c = add a (add b c)"
  by (simp add: add_def)

lemma add_zero_right: "add a (Vector3 0 0 0) = a"
  by (cases a) (simp add: add_def)

lemma add_zero_left: "add (Vector3 0 0 0) a = a"
  by (cases a) (simp add: add_def)

lemma light_terms_contribution:
  "light_terms obj hit_point (normal_vector obj hit_point) (neg (normalize (direction r))) l
     = (diffuse, specular) \<Longrightarrow>
   add diffuse specular = light_contribution obj hit_point r l"
  by (auto simp: light_terms_def light_contribution_def Let_def)

lemma light_loop_py_add:
  "light_loop py_add obj hit_point (normal_vector obj hit_point) (neg (normalize (direction r)))
     col ls = Inr (add col (local_color obj hit_point r ls))"
proof (induction ls arbitrary: col)
  case Nil
  show ?case by (simp add: local_color_def add_zero_right)
next
  case (Cons l rest)
  obtain diffuse specular where
    terms: "light_terms obj hit_point (normal_vector obj hit_point)
              (neg (normalize (direction r))) l = (diffuse, specular)"
    by (cases "light_terms obj hit_point (normal_vector obj hit_point)
              (neg (normalize (direction r))) l")
  have "accumulate py_add col diffuse specular = Inr (add (add col diffuse) specular)"
    by (simp add: accumulate_def py_add_def)
  with terms Cons.IH [of "add (add col diffuse) specular"]
  have "light_loop py_add obj hit_point (normal_vector obj hit_point)
          (neg (normalize (direction r))) col (l # rest)
        = Inr (add (add (add col diffuse) specular) (local_color obj hit_point r rest))"
    by simp
  also have "add (add (add col diffuse) specular) (local_color obj hit_point r rest)
        = add col (add (add diffuse specular) (local_color obj hit_point r rest))"
    by (simp add: add_assoc)
  finally show ?case
    using light_terms_contribution [OF terms] by (simp add: local_color_def)
qed


lemma color_hit:
  assumes "hit sc r = Inr (Some (hit_point, obj))" "depth < max_depth"
  shows "color r sc depth max_depth =
     (if reflectivity (material obj) > 0 then
        (case color (reflection_ray obj hit_point r) sc (depth + 1) 3 of
           Inl e \<Rightarrow> Inl e
         | Inr ref_color \<Rightarrow>
             Inr (mix_color (local_color obj hit_point r (lighting sc)) ref_color
                    (reflectivity (material obj))))
      else Inr (local_color obj hit_point r (lighting sc)))"
  using assms
  by (subst color.simps)
     (simp add: light_loop_py_add add_zero_left reflection_ray_def Let_def)

lemma color_base:
  assumes "hit sc r = Inr h" "h = None \<or> max_depth \<le> depth"
  shows "color r sc depth max_depth = Inr (background r)"
  using assms by (subst color.simps) (auto split: option.splits)

lemma color_raises:
  assumes "hit sc r = Inl e"
  shows "color r sc depth max_depth = Inl e"
  using assms by (subst color.simps) simp

lemma color_returns:
  "direction r \<noteq> Vector3 0 0 0 \<Longrightarrow> \<exists>c. color r sc depth max_depth = Inr c"
proof (induction "if max_depth = 3 then nat (3 - depth) else Suc (nat (3 - depth))"
    arbitrary: r depth max_depth rule: less_induct)
  case less
  obtain res where "hit_loop r (objects sc) None = Inr res"
    using hit_loop_returns [OF less.prems] by blast
  then obtain h where h: "hit sc r = Inr h"
    by (cases res) (auto simp: hit_exact)
  show ?case
  proof (cases "h = None \<or> max_depth \<le> depth")
    case True
    with h show ?thesis by (simp add: color_base)
  next
    case False
    then obtain hit_point obj where hs: "h = Some (hit_point, obj)" and d: "depth < max_depth"
      by (cases h) auto
    have "direction (reflection_ray obj hit_point r) \<noteq> Vector3 0 0 0"
      using less.prems by (simp add: reflection_ray_def normal_vector_def reflect_nonzero)
    moreover have "(if (3::int) = 3 then nat (3 - (depth + 1)) else Suc (nat (3 - (depth + 1))))
        < (if max_depth = 3 then nat (3 - depth) else Suc (nat (3 - depth)))"
      using d by auto
    ultimately obtain c where "color (reflection_ray obj hit_point r) sc (depth + 1) 3 = Inr c"
      using less.hyps [of 3 "depth + 1" "reflection_ray obj hit_point r"] by blast
    with h hs d show ?thesis by (simp add: color_hit)
  qed
qed

text \<open>
  Claim C4, as the code has it. Whenever \<open>Scene.hit\<close> returns for the ray, and it
  reports no hit or \<open>depth \<ge> max_depth\<close>, the shader returns the background colour
  \<open>(1 - alpha) (1, 1, 1) + alpha (0.5, 0.7, 1.0)\<close> with
  \<open>alpha = 0.5 (direction.y + 1)\<close>, in which no light and no material occurs.
\<close>

theorem color_background:
  assumes "hit sc r = Inr h" and "h = None \<or> depth \<ge> max_depth"
  shows "color r sc depth max_depth =
     Inr (let alpha = 0.5 * (vy (direction r) + 1)
          in Vector3 ((1 - alpha) * 1 + alpha * 0.5) ((1 - alpha) * 1 + alpha * 0.7)
               ((1 - alpha) * 1 + alpha * 1.0))"
  using color_base [OF assms]
  by (simp add: background_def add_def mul_num_def Let_def algebra_simps)

lemma hit_lit_sphere_ray_ahead: "hit lit_sphere ray_ahead = Inr (Some (Vector3 0 0 4, sphere_ahead))"
  by (simp add: hit_exact lit_sphere_def sphere_ahead_ray_ahead_hit)
     (simp add: point_def ray_ahead_def add_def mul_num_def)

lemma hit_lit_sphere_ray_upward: "hit lit_sphere ray_upward = Inr None"
  by (simp add: hit_exact lit_sphere_def intersect_unfold sphere_ahead_ray_upward)

text \<open>
  The ray along \<open>y\<close> meets nothing and gets the colour at \<open>alpha = 1\<close>; the ray
  along \<open>z\<close> meets the sphere, and at \<open>depth = max_depth = 3\<close> gets the colour
  at \<open>alpha = 1/2\<close>.
\<close>

theorem color_background_witness:
  "hit lit_sphere ray_upward = Inr None
   \<and> color ray_upward lit_sphere 0 3 = Inr (Vector3 0.5 0.7 1.0)
   \<and> hit lit_sphere ray_ahead = Inr (Some (Vector3 0 0 4, sphere_ahead)) \<and> (3::int) \<ge> 3
   \<and> color ray_ahead lit_sphere 3 3 = Inr (Vector3 0.75 0.85 1.0)"
  using color_background [OF hit_lit_sphere_ray_upward, of 3 0]
    color_background [OF hit_lit_sphere_ray_ahead, of 3 3]
  by (simp add: hit_lit_sphere_ray_upward hit_lit_sphere_ray_ahead Let_def)
     (simp add: ray_upward_def ray_ahead_def)

text \<open>
  Claim C4 as stated fails where \<open>depth \<ge> max_depth\<close> and the scene query raises: the
  shader asks the scene first, and a ray whose direction is the zero vector makes
  \<open>intersect\<close> divide by zero.
\<close>

theorem color_still_ray_counterexample:
  "(3::int) \<ge> 3 \<and> color ray_still lit_sphere 3 3 = Inl ZeroDivisionError"
proof -
  have "hit lit_sphere ray_still = Inl ZeroDivisionError"
    by (simp add: hit_exact lit_sphere_def intersect_unfold discriminant_still quad_a_def
        dot_zero_left ray_still_def)
  then show ?thesis by (simp add: color_raises)
qed



lemma sqrt_25: "sqrt 25 = 5"
  by (rule real_sqrt_unique) simp_all

lemma sqrt_16: "sqrt 16 = 4"
  by (rule real_sqrt_unique) simp_all












lemma contribution_sphere_behind:
  "direction r = Vector3 0 0 (- 1) \<Longrightarrow>
   light_contribution sphere_behind (Vector3 0 0 (- 4)) r light_at_origin = Vector3 2 2 2"
  by (simp add: light_contribution_def normal_vector_def normalize_def length_vec_def sub_def
      neg_def reflect_def dot_def mul_num_def mul_vec_def add_def sphere_behind_def
      light_at_origin_def default_material_def Material_def sqrt_16 Let_def)

lemma lighting_facing_spheres: "lighting facing_spheres = [light_at_origin]"
  by (simp add: facing_spheres_def)

lemma reflectivity_sphere_behind: "reflectivity (material sphere_behind) = 0"
  by (simp add: sphere_behind_def default_material_def Material_def)


subsection \<open>The local illumination\<close>




















subsection \<open>The handler of the loop over the lights\<close>

lemma light_loop_append:
  "light_loop addop obj hit_point normal view_dir col pre = Inr c \<Longrightarrow>
   light_loop addop obj hit_point normal view_dir col (pre @ post)
     = light_loop addop obj hit_point normal view_dir c post"
proof (induction pre arbitrary: col)
  case Nil
  then show ?case by simp
next
  case (Cons l rest)
  obtain diffuse specular where
    terms: "light_terms obj hit_point normal view_dir l = (diffuse, specular)"
    by (cases "light_terms obj hit_point normal view_dir l")
  show ?case
  proof (cases "accumulate addop col diffuse specular")
    case (Inr col')
    with terms Cons.prems Cons.IH [of col'] show ?thesis by simp
  next
    case (Inl e)
    with terms Cons.prems Cons.IH [of col] show ?thesis by (cases e) simp_all
  qed
qed

lemma light_loop_surviving:
  assumes "\<And>c l. l \<in> set ls \<Longrightarrow>
      accumulate addop c (fst (light_terms obj hit_point normal view_dir l))
          (snd (light_terms obj hit_point normal view_dir l))
        = (if bad l then Inl TypeError
           else Inr (add (add c (fst (light_terms obj hit_point normal view_dir l)))
                         (snd (light_terms obj hit_point normal view_dir l))))"
  shows "light_loop addop obj hit_point normal view_dir col ls =
     Inr (Vector3
       (vx col + (\<Sum>l\<leftarrow>filter (\<lambda>l. \<not> bad l) ls.
           vx (fst (light_terms obj hit_point normal view_dir l))
           + vx (snd (light_terms obj hit_point normal view_dir l))))
       (vy col + (\<Sum>l\<leftarrow>filter (\<lambda>l. \<not> bad l) ls.
           vy (fst (light_terms obj hit_point normal view_dir l))
           + vy (snd (light_terms obj hit_point normal view_dir l))))
       (vz col + (\<Sum>l\<leftarrow>filter (\<lambda>l. \<not> bad l) ls.
           vz (fst (light_terms obj hit_point normal view_dir l))
           + vz (snd (light_terms obj hit_point normal view_dir l)))))"
  using assms
proof (induction ls arbitrary: col)
  case Nil
  show ?case by simp
next
  case (Cons l rest)
  obtain diffuse specular where
    terms: "light_terms obj hit_point normal view_dir l = (diffuse, specular)"
    by (cases "light_terms obj hit_point normal view_dir l")
  have acc: "accumulate addop col diffuse specular
      = (if bad l then Inl TypeError else Inr (add (add col diffuse) specular))"
    using Cons.prems [of l col] terms by simp
  have rest: "\<And>c. light_loop addop obj hit_point normal view_dir c rest =
     Inr (Vector3
       (vx c + (\<Sum>l\<leftarrow>filter (\<lambda>l. \<not> bad l) rest.
           vx (fst (light_terms obj hit_point normal view_dir l))
           + vx (snd (light_terms obj hit_point normal view_dir l))))
       (vy c + (\<Sum>l\<leftarrow>filter (\<lambda>l. \<not> bad l) rest.
           vy (fst (light_terms obj hit_point normal view_dir l))
           + vy (snd (light_terms obj hit_point normal view_dir l))))
       (vz c + (\<Sum>l\<leftarrow>filter (\<lambda>l. \<not> bad l) rest.
           vz (fst (light_terms obj hit_point normal view_dir l))
           + vz (snd (light_terms obj hit_point normal view_dir l)))))"
    using Cons.IH Cons.prems by simp
  show ?case
  proof (cases "bad l")
    case True
    with acc terms rest [of col] show ?thesis by simp
  next
    case False
    with acc terms rest [of "add (add col diffuse) specular"] show ?thesis
      by (simp add: add_def)
  qed
qed

text \<open>
  Claim C8. Let the sum \<open>color + diffuse + specular\<close> raise TypeError for the lights that
  are \<open>bad\<close> and be the sum of the three vectors for the others. Then the loop over the
  lights returns, and its colour is the colour it started from plus the terms of the
  lights that are not bad: the contribution of a bad light is dropped, the lights after
  it are still added, and no error leaves the loop. In general, when the sum of a light
  raises TypeError the loop goes on with the lights after it from the colour accumulated
  before it.
\<close>

theorem light_loop_catches_TypeError:
  "((\<forall>c. \<forall>l\<in>set ls.
        accumulate addop c (fst (light_terms obj hit_point normal view_dir l))
            (snd (light_terms obj hit_point normal view_dir l))
          = (if bad l then Inl TypeError
             else Inr (add (add c (fst (light_terms obj hit_point normal view_dir l)))
                           (snd (light_terms obj hit_point normal view_dir l))))) \<longrightarrow>
     light_loop addop obj hit_point normal view_dir col ls =
       Inr (Vector3
         (vx col + (\<Sum>l\<leftarrow>filter (\<lambda>l. \<not> bad l) ls.
             vx (fst (light_terms obj hit_point normal view_dir l))
             + vx (snd (light_terms obj hit_point normal view_dir l))))
         (vy col + (\<Sum>l\<leftarrow>filter (\<lambda>l. \<not> bad l) ls.
             vy (fst (light_terms obj hit_point normal view_dir l))
             + vy (snd (light_terms obj hit_point normal view_dir l))))
         (vz col + (\<Sum>l\<leftarrow>filter (\<lambda>l. \<not> bad l) ls.
             vz (fst (light_terms obj hit_point normal view_dir l))
             + vz (snd (light_terms obj hit_point normal view_dir l))))))
   \<and> (light_loop addop obj hit_point normal view_dir col pre = Inr c
        \<and> accumulate addop c (fst (light_terms obj hit_point normal view_dir l))
             (snd (light_terms obj hit_point normal view_dir l)) = Inl TypeError \<longrightarrow>
      light_loop addop obj hit_point normal view_dir col (pre @ l # post)
        = light_loop addop obj hit_point normal view_dir c post)"
proof (intro conjI impI)
  assume "\<forall>c. \<forall>l\<in>set ls.
        accumulate addop c (fst (light_terms obj hit_point normal view_dir l))
            (snd (light_terms obj hit_point normal view_dir l))
          = (if bad l then Inl TypeError
             else Inr (add (add c (fst (light_terms obj hit_point normal view_dir l)))
                           (snd (light_terms obj hit_point normal view_dir l))))"
  then show "light_loop addop obj hit_point normal view_dir col ls =
       Inr (Vector3
         (vx col + (\<Sum>l\<leftarrow>filter (\<lambda>l. \<not> bad l) ls.
             vx (fst (light_terms obj hit_point normal view_dir l))
             + vx (snd (light_terms obj hit_point normal view_dir l))))
         (vy col + (\<Sum>l\<leftarrow>filter (\<lambda>l. \<not> bad l) ls.
             vy (fst (light_terms obj hit_point normal view_dir l))
             + vy (snd (light_terms obj hit_point normal view_dir l))))
         (vz col + (\<Sum>l\<leftarrow>filter (\<lambda>l. \<not> bad l) ls.
             vz (fst (light_terms obj hit_point normal view_dir l))
             + vz (snd (light_terms obj hit_point normal view_dir l)))))"
    by (intro light_loop_surviving) simp
next
  assume h: "light_loop addop obj hit_point normal view_dir col pre = Inr c
        \<and> accumulate addop c (fst (light_terms obj hit_point normal view_dir l))
             (snd (light_terms obj hit_point normal view_dir l)) = Inl TypeError"
  then have "light_loop addop obj hit_point normal view_dir col (pre @ l # post)
      = light_loop addop obj hit_point normal view_dir c (l # post)"
    by (simp add: light_loop_append)
  also have "\<dots> = light_loop addop obj hit_point normal view_dir c post"
    using h by (cases "light_terms obj hit_point normal view_dir l") simp
  finally show "light_loop addop obj hit_point normal view_dir col (pre @ l # post)
        = light_loop addop obj hit_point normal view_dir c post" .
qed

lemma terms_white:
  "light_terms sphere_ahead (Vector3 0 0 4) (Vector3 0 0 (- 1)) (Vector3 0 0 (- 1)) light_at_origin
     = (Vector3 1 0 0, Vector3 1 1 1)"
  by (simp add: light_terms_def normalize_def length_vec_def sub_def neg_def reflect_def dot_def
      mul_num_def mul_vec_def sphere_ahead_def light_at_origin_def plastic_red_def Material_def
      sqrt_16 Let_def)

lemma terms_blue:
  "light_terms sphere_ahead (Vector3 0 0 4) (Vector3 0 0 (- 1)) (Vector3 0 0 (- 1)) light_blue
     = (Vector3 0 0 0, Vector3 0 0 1)"
  by (simp add: light_terms_def normalize_def length_vec_def sub_def neg_def reflect_def dot_def
      mul_num_def mul_vec_def sphere_ahead_def light_blue_def plastic_red_def Material_def
      sqrt_16 Let_def)

text \<open>
  At the hit of the red sphere the white light has the diffuse term \<open>(1, 0, 0)\<close> and the
  blue light the terms \<open>(0, 0, 0)\<close> and \<open>(0, 0, 1)\<close>. With an addition that raises
  TypeError on \<open>(1, 0, 0)\<close> the white light is dropped and the blue one is added, whether
  the white light comes first or last; with the addition of vectors of numbers both are
  added.
\<close>

theorem light_loop_catches_TypeError_witness:
  "accumulate (add_unless (Vector3 1 0 0)) (Vector3 0.5 0.5 0.5) (Vector3 1 0 0) (Vector3 1 1 1)
     = Inl TypeError
   \<and> accumulate (add_unless (Vector3 1 0 0)) (Vector3 0.5 0.5 0.5) (Vector3 0 0 0) (Vector3 0 0 1)
     = Inr (Vector3 0.5 0.5 1.5)
   \<and> light_loop (add_unless (Vector3 1 0 0)) sphere_ahead (Vector3 0 0 4) (Vector3 0 0 (- 1))
        (Vector3 0 0 (- 1)) (Vector3 0.5 0.5 0.5) [light_at_origin, light_blue]
      = Inr (Vector3 0.5 0.5 1.5)
   \<and> light_loop (add_unless (Vector3 1 0 0)) sphere_ahead (Vector3 0 0 4) (Vector3 0 0 (- 1))
        (Vector3 0 0 (- 1)) (Vector3 0.5 0.5 0.5) [light_blue, light_at_origin]
      = Inr (Vector3 0.5 0.5 1.5)
   \<and> light_loop py_add sphere_ahead (Vector3 0 0 4) (Vector3 0 0 (- 1))
        (Vector3 0 0 (- 1)) (Vector3 0.5 0.5 0.5) [light_at_origin, light_blue]
      = Inr (Vector3 2.5 1.5 2.5)"
proof -
  have ne: "light_blue \<noteq> light_at_origin"
    by (simp add: light_blue_def light_at_origin_def)
  have picky: "\<forall>c. \<forall>l\<in>set [light_at_origin, light_blue].
      accumulate (add_unless (Vector3 1 0 0)) c
          (fst (light_terms sphere_ahead (Vector3 0 0 4) (Vector3 0 0 (- 1)) (Vector3 0 0 (- 1)) l))
          (snd (light_terms sphere_ahead (Vector3 0 0 4) (Vector3 0 0 (- 1)) (Vector3 0 0 (- 1)) l))
        = (if l = light_at_origin then Inl TypeError
           else Inr (add (add c
             (fst (light_terms sphere_ahead (Vector3 0 0 4) (Vector3 0 0 (- 1)) (Vector3 0 0 (- 1)) l)))
             (snd (light_terms sphere_ahead (Vector3 0 0 4) (Vector3 0 0 (- 1)) (Vector3 0 0 (- 1)) l))))"
    by (simp add: terms_white terms_blue ne accumulate_def add_unless_def add_def)
  have picky': "\<forall>c. \<forall>l\<in>set [light_blue, light_at_origin].
      accumulate (add_unless (Vector3 1 0 0)) c
          (fst (light_terms sphere_ahead (Vector3 0 0 4) (Vector3 0 0 (- 1)) (Vector3 0 0 (- 1)) l))
          (snd (light_terms sphere_ahead (Vector3 0 0 4) (Vector3 0 0 (- 1)) (Vector3 0 0 (- 1)) l))
        = (if l = light_at_origin then Inl TypeError
           else Inr (add (add c
             (fst (light_terms sphere_ahead (Vector3 0 0 4) (Vector3 0 0 (- 1)) (Vector3 0 0 (- 1)) l)))
             (snd (light_terms sphere_ahead (Vector3 0 0 4) (Vector3 0 0 (- 1)) (Vector3 0 0 (- 1)) l))))"
    using picky by simp
  have plain: "\<forall>c. \<forall>l\<in>set [light_at_origin, light_blue].
      accumulate py_add c
          (fst (light_terms sphere_ahead (Vector3 0 0 4) (Vector3 0 0 (- 1)) (Vector3 0 0 (- 1)) l))
          (snd (light_terms sphere_ahead (Vector3 0 0 4) (Vector3 0 0 (- 1)) (Vector3 0 0 (- 1)) l))
        = (if False then Inl TypeError
           else Inr (add (add c
             (fst (light_terms sphere_ahead (Vector3 0 0 4) (Vector3 0 0 (- 1)) (Vector3 0 0 (- 1)) l)))
             (snd (light_terms sphere_ahead (Vector3 0 0 4) (Vector3 0 0 (- 1)) (Vector3 0 0 (- 1)) l))))"
    by (simp add: accumulate_def py_add_def)
  have one: "light_loop (add_unless (Vector3 1 0 0)) sphere_ahead (Vector3 0 0 4) (Vector3 0 0 (- 1))
        (Vector3 0 0 (- 1)) (Vector3 0.5 0.5 0.5) [light_at_origin, light_blue]
      = Inr (Vector3 0.5 0.5 1.5)"
    using light_loop_catches_TypeError [of "[light_at_origin, light_blue]"
        "add_unless (Vector3 1 0 0)" sphere_ahead "Vector3 0 0 4" "Vector3 0 0 (- 1)"
        "Vector3 0 0 (- 1)" "\<lambda>l. l = light_at_origin" "Vector3 0.5 0.5 0.5"] picky
    by (simp add: ne terms_blue)
  have two: "light_loop (add_unless (Vector3 1 0 0)) sphere_ahead (Vector3 0 0 4) (Vector3 0 0 (- 1))
        (Vector3 0 0 (- 1)) (Vector3 0.5 0.5 0.5) [light_blue, light_at_origin]
      = Inr (Vector3 0.5 0.5 1.5)"
    using light_loop_catches_TypeError [of "[light_blue, light_at_origin]"
        "add_unless (Vector3 1 0 0)" sphere_ahead "Vector3 0 0 4" "Vector3 0 0 (- 1)"
        "Vector3 0 0 (- 1)" "\<lambda>l. l = light_at_origin" "Vector3 0.5 0.5 0.5"] picky'
    by (simp add: ne terms_blue)
  have three: "light_loop py_add sphere_ahead (Vector3 0 0 4) (Vector3 0 0 (- 1))
        (Vector3 0 0 (- 1)) (Vector3 0.5 0.5 0.5) [light_at_origin, light_blue]
      = Inr (Vector3 2.5 1.5 2.5)"
    using light_loop_catches_TypeError [of "[light_at_origin, light_blue]"
        py_add sphere_ahead "Vector3 0 0 4" "Vector3 0 0 (- 1)"
        "Vector3 0 0 (- 1)" "\<lambda>l. False" "Vector3 0.5 0.5 0.5"] plain
    by (simp add: terms_white terms_blue)
  from one two three show ?thesis
    by (simp add: accumulate_def add_unless_def add_def)
qed

subsection \<open>The depth bound\<close>

lemma color_max_depth_above:
  assumes "depth < m1" "depth < m2"
  shows "color r sc depth m1 = color r sc depth m2"
proof (cases "hit sc r")
  case (Inl e)
  then show ?thesis by (simp add: color_raises)
next
  case (Inr h)
  show ?thesis
  proof (cases h)
    case None
    with Inr show ?thesis by (simp add: color_base)
  next
    case (Some p)
    obtain hit_point obj where "p = (hit_point, obj)" by (cases p)
    with Inr Some assms show ?thesis by (simp add: color_hit)
  qed
qed

lemma sphere_mirror_ray_ahead: "intersect sphere_mirror ray_ahead = Inr (Some 4)"
  by (simp add: intersect_exact sphere_mirror_def ray_ahead_def dot_def sub_def)

lemma sphere_behind_ray_ahead: "intersect sphere_behind ray_ahead = Inr None"
  by (simp add: intersect_exact sphere_behind_def ray_ahead_def dot_def sub_def)

lemma hit_facing_spheres_ray_ahead:
  "hit facing_spheres ray_ahead = Inr (Some (Vector3 0 0 4, sphere_mirror))"
  by (simp add: hit_exact facing_spheres_def sphere_mirror_ray_ahead sphere_behind_ray_ahead)
     (simp add: point_def ray_ahead_def add_def mul_num_def)

lemma sphere_mirror_ray_back: "intersect sphere_mirror ray_back = Inr None"
  by (simp add: intersect_exact sphere_mirror_def ray_back_def dot_def sub_def power2_eq_square)

lemma sphere_behind_ray_back: "intersect sphere_behind ray_back = Inr (Some 7.99)"
  by (simp add: intersect_exact sphere_behind_def ray_back_def dot_def sub_def power2_eq_square)

lemma hit_facing_spheres_ray_back:
  "hit facing_spheres ray_back = Inr (Some (Vector3 0 0 (- 4), sphere_behind))"
  by (simp add: hit_exact facing_spheres_def sphere_mirror_ray_back sphere_behind_ray_back)
     (simp add: point_def ray_back_def add_def mul_num_def)

lemma contribution_sphere_mirror:
  "light_contribution sphere_mirror (Vector3 0 0 4) ray_ahead light_at_origin = Vector3 1.6 1.6 1.6"
  by (simp add: light_contribution_def normal_vector_def normalize_def length_vec_def sub_def
      neg_def reflect_def dot_def mul_num_def mul_vec_def add_def sphere_mirror_def ray_ahead_def
      light_at_origin_def chrome_silver_def Material_def sqrt_16 Let_def)

lemma reflection_ray_sphere_mirror:
  "reflection_ray sphere_mirror (Vector3 0 0 4) ray_ahead = ray_back"
  by (simp add: reflection_ray_def normal_vector_def normalize_def length_vec_def sub_def
      sphere_mirror_def ray_ahead_def ray_back_def add_def mul_num_def reflect_def dot_def Let_def)

lemma reflectivity_sphere_mirror: "reflectivity (material sphere_mirror) = 0.9"
  by (simp add: sphere_mirror_def chrome_silver_def Material_def)

lemma color_ray_back_facing_spheres: "color ray_back facing_spheres 1 3 = Inr (Vector3 2 2 2)"
proof -
  have "direction ray_back = Vector3 0 0 (- 1)" by (simp add: ray_back_def)
  then show ?thesis
    using color_hit [OF hit_facing_spheres_ray_back, of 1 3]
    by (simp add: reflectivity_sphere_behind local_color_def lighting_facing_spheres
        contribution_sphere_behind add_zero_right)
qed

text \<open>
  Claim C6 at \<open>depth = 0\<close>, \<open>max_depth = 1\<close>. The ray along \<open>z\<close> meets the mirror sphere;
  the reflection ray is evaluated at depth 1 with the default bound 3, not with the
  bound 1 that the caller supplied: it meets the sphere behind the origin and returns
  that sphere's local colour \<open>(2, 2, 2)\<close>, so the result is \<open>(1.96, 1.96, 1.96)\<close>. With
  the bound 1 at depth 1 the reflected colour would be the background of the reflection
  ray and the result \<open>(0.835, 0.925, 1.06)\<close>.
\<close>

theorem color_drops_max_depth:
  "color ray_ahead facing_spheres 0 1 = Inr (Vector3 1.96 1.96 1.96)
   \<and> reflection_ray sphere_mirror (Vector3 0 0 4) ray_ahead = ray_back
   \<and> color ray_back facing_spheres (0 + 1) 3 = Inr (Vector3 2 2 2)
   \<and> color ray_back facing_spheres (0 + 1) 1 = Inr (Vector3 0.75 0.85 1)
   \<and> mix_color (local_color sphere_mirror (Vector3 0 0 4) ray_ahead (lighting facing_spheres))
        (Vector3 0.75 0.85 1) (reflectivity (material sphere_mirror))
      = Vector3 0.835 0.925 1.06"
proof -
  have local: "local_color sphere_mirror (Vector3 0 0 4) ray_ahead (lighting facing_spheres)
      = Vector3 1.6 1.6 1.6"
    by (simp add: local_color_def lighting_facing_spheres contribution_sphere_mirror add_zero_right)
  have "color ray_ahead facing_spheres 0 1 = Inr (Vector3 1.96 1.96 1.96)"
    using color_hit [OF hit_facing_spheres_ray_ahead, of 0 1]
    by (simp add: reflectivity_sphere_mirror reflection_ray_sphere_mirror
        color_ray_back_facing_spheres local)
       (simp add: mix_color_def add_def mul_num_def)
  moreover have "color ray_back facing_spheres 1 1 = Inr (Vector3 0.75 0.85 1)"
    using color_base [OF hit_facing_spheres_ray_back, of 1 1]
    by (simp add: background_def ray_back_def add_def mul_num_def)
  moreover have "mix_color (Vector3 1.6 1.6 1.6) (Vector3 0.75 0.85 1) 0.9
      = Vector3 0.835 0.925 1.06"
    by (simp add: mix_color_def add_def mul_num_def)
  ultimately show ?thesis
    by (simp add: reflection_ray_sphere_mirror color_ray_back_facing_spheres local
        reflectivity_sphere_mirror)
qed

subsection \<open>Vector3 objects\<close>

lemma kept_new: "kept h (fst (new h v))"
  by (simp add: kept_def new_def)

lemma kept_refl: "kept h h"
  by (simp add: kept_def)

lemma kept_reflect: "kept h (fst (reflect_obj h self normal))"
  by (simp add: reflect_obj_def dot_obj_def sub_obj_def new_def kept_def)

text \<open>
  Claim C9, as the code has it. Each of add, subtract, negate, multiply, divide, dot,
  cross, length, normalize, reflect and rgb leaves every object of the store as it was
  and gives its result as a new object or a number. The in-place division \<open>/=\<close>, which
  \<open>render_scene\<close> applies to the colour it has summed, creates no object: it overwrites
  the components of its left operand with the quotients and returns that operand.
\<close>

theorem vector3_operations_keep_operands:
  "kept h (fst (add_obj h self other))
   \<and> kept h (fst (sub_obj h self other))
   \<and> kept h (fst (neg_obj h self))
   \<and> (case mul_obj h self x of Inl e \<Rightarrow> True | Inr (h', p) \<Rightarrow> kept h h')
   \<and> (case truediv_obj h self scalar of Inl e \<Rightarrow> True | Inr (h', p) \<Rightarrow> kept h h')
   \<and> fst (dot_obj h self other) = h
   \<and> kept h (fst (cross_obj h self other))
   \<and> fst (length_obj h self) = h
   \<and> kept h (fst (normalize_obj h self))
   \<and> kept h (fst (reflect_obj h self other))
   \<and> fst (rgb_obj h self) = h
   \<and> (scalar \<noteq> 0 \<longrightarrow>
        itruediv_obj h self scalar =
          Inr (h[self := Vector3 (vx (h ! self) / scalar) (vy (h ! self) / scalar)
                           (vz (h ! self) / scalar)], self))"
proof -
  have "case mul_obj h self x of Inl e \<Rightarrow> True | Inr (h', p) \<Rightarrow> kept h h'"
    by (cases x) (simp_all add: new_def kept_def)
  moreover have "case truediv_obj h self scalar of Inl e \<Rightarrow> True | Inr (h', p) \<Rightarrow> kept h h'"
    by (simp add: truediv_obj_def new_def kept_def)
  ultimately show ?thesis
    by (simp add: add_obj_def sub_obj_def neg_obj_def cross_obj_def normalize_obj_def
        dot_obj_def length_obj_def rgb_obj_def kept_new kept_reflect itruediv_obj_def)
qed

text \<open>
  In a store of \<open>(2, 4, 6)\<close> and \<open>(1, 1, 1)\<close> the sum is a third object and the two
  are as before; \<open>(2, 4, 6) / 2\<close> is a second object, and \<open>/=\<close> by 2 leaves the one
  object \<open>(1, 2, 3)\<close>.
\<close>

theorem vector3_operations_keep_operands_witness:
  "add_obj [Vector3 2 4 6, Vector3 1 1 1] 0 1
     = ([Vector3 2 4 6, Vector3 1 1 1, Vector3 3 5 7], 2)
   \<and> kept [Vector3 2 4 6, Vector3 1 1 1] (fst (add_obj [Vector3 2 4 6, Vector3 1 1 1] 0 1))
   \<and> truediv_obj [Vector3 2 4 6] 0 2 = Inr ([Vector3 2 4 6, Vector3 1 2 3], 1)
   \<and> (2::real) \<noteq> 0
   \<and> itruediv_obj [Vector3 2 4 6] 0 2 = Inr ([Vector3 1 2 3], 0)"
  using vector3_operations_keep_operands [of "[Vector3 2 4 6, Vector3 1 1 1]" 0 1 "NumVal 2" 2]
    vector3_operations_keep_operands [of "[Vector3 2 4 6]" 0 0 "NumVal 2" 2]
  by (simp add: add_obj_def new_def add_def truediv_obj_def)

text \<open>
  Claim C9 as stated fails for the in-place division: after \<open>v /= 2\<close> the object \<open>v\<close>
  that held \<open>(2, 4, 6)\<close> holds \<open>(1, 2, 3)\<close>, and no other object exists.
\<close>

theorem itruediv_overwrites_counterexample:
  "itruediv_obj [Vector3 2 4 6] 0 2 = Inr ([Vector3 1 2 3], 0)
   \<and> \<not> kept [Vector3 2 4 6] [Vector3 1 2 3]
   \<and> vx ([Vector3 1 2 3] ! 0) \<noteq> vx ([Vector3 2 4 6] ! 0)"
  by (simp add: itruediv_obj_def kept_def)

subsection \<open>render_scene\<close>

lemma the_camera_value:
  "the_camera = Inr \<lparr>position = Vector3 0 0 0, width = 1000, height = 800, aspect_ratio = 5 / 4,
     screen_distance = 1, screen_width = 2 * tan (radians (75 / 2)),
     screen_height = 2 * tan (radians (75 / 2)) / (5 / 4),
     forward = Vector3 0 0 1, right = Vector3 1 0 0, up = Vector3 0 1 0\<rparr>"
  by (simp add: the_camera_def Camera_def normalize_def length_vec_def sub_def cross_def
      sqrt_25 Let_def)

lemma unat_uint8:
  assumes "0 \<le> v" "v \<le> 255"
  shows "unat (uint8 v) = nat \<lfloor>v\<rfloor>"
proof -
  have "0 \<le> \<lfloor>v\<rfloor>" using assms(1) by simp
  moreover have "\<lfloor>v\<rfloor> < 2 ^ 8" using assms(2) by (simp add: floor_less_iff)
  ultimately have "take_bit 8 \<lfloor>v\<rfloor> = \<lfloor>v\<rfloor>" by (simp add: take_bit_int_eq_self)
  then show ?thesis by (simp add: uint8_def unsigned_of_int)
qed

lemma unat_rgb:
  "map unat (rgb v) = map (\<lambda>c. nat \<lfloor>max 0 (min 1 c) * 255\<rfloor>) [vx v, vy v, vz v]"
  by (simp add: rgb_def Let_def unat_uint8)

lemma get_ray_direction:
  assumes "forward cam = Vector3 0 0 1" "right cam = Vector3 1 0 0" "up cam = Vector3 0 1 0"
    "screen_distance cam = 1"
  shows "direction (get_ray cam u v) \<noteq> Vector3 0 0 0"
proof -
  have "direction (get_ray cam u v)
      = normalize (Vector3 ((u * 2 - 1) * screen_width cam / 2)
                           ((1 - v * 2) * screen_height cam / 2) 1)"
    using assms by (simp add: get_ray_def add_def mul_num_def Let_def)
  then show ?thesis by (simp add: normalize_nonzero)
qed

lemma sample_loop_four:
  assumes "f 0 0 = Inr c00" "f 1 0 = Inr c10" "f 0 1 = Inr c01" "f 1 1 = Inr c11"
  shows "sample_loop f (Vector3 0 0 0) (List.product [0..<2] [0..<2])
     = Inr (Vector3 (vx c00 + vx c10 + vx c01 + vx c11) (vy c00 + vy c10 + vy c01 + vy c11)
              (vz c00 + vz c10 + vz c01 + vz c11))"
proof -
  have "List.product [0..<2] [0..<2] = [(0, 0), (0, 1), (1, 0), (1, Suc 0 :: nat)]"
    by (simp add: upt_rec numeral_2_eq_2)
  then show ?thesis using assms by (simp add: add_def)
qed

lemma for_each_returns:
  assumes "\<And>a. a \<in> set as \<Longrightarrow> \<exists>b. f a = Inr b"
  shows "\<exists>bs. for_each f as = Inr bs \<and> length bs = length as
           \<and> (\<forall>i<length as. f (as ! i) = Inr (bs ! i))"
  using assms
proof (induction as)
  case Nil
  show ?case by simp
next
  case (Cons a as)
  obtain b where b: "f a = Inr b" using Cons.prems by force
  obtain bs where bs: "for_each f as = Inr bs" "length bs = length as"
    "\<forall>i<length as. f (as ! i) = Inr (bs ! i)"
    using Cons.IH Cons.prems by force
  have "\<forall>i<length (a # as). f ((a # as) ! i) = Inr ((b # bs) ! i)"
    using b bs(3) by (auto simp: nth_Cons split: nat.split)
  with b bs show ?case by simp
qed

lemma render_pixel_value:
  assumes "forward cam = Vector3 0 0 1" "right cam = Vector3 1 0 0" "up cam = Vector3 0 1 0"
    "screen_distance cam = 1"
  shows "\<exists>c00 c10 c01 c11.
      sample_color cam sc w h x y 0 0 = Inr c00 \<and> sample_color cam sc w h x y 1 0 = Inr c10
    \<and> sample_color cam sc w h x y 0 1 = Inr c01 \<and> sample_color cam sc w h x y 1 1 = Inr c11
    \<and> render_pixel cam sc w h x y =
        Inr (rgb (Vector3 ((vx c00 + vx c10 + vx c01 + vx c11) / 4)
                          ((vy c00 + vy c10 + vy c01 + vy c11) / 4)
                          ((vz c00 + vz c10 + vz c01 + vz c11) / 4)))"
proof -
  have ret: "\<And>sx sy. \<exists>c. sample_color cam sc w h x y sx sy = Inr c"
    unfolding sample_color_def Let_def
    by (rule color_returns) (rule get_ray_direction [OF assms])
  obtain c00 where c00: "sample_color cam sc w h x y 0 0 = Inr c00" using ret by blast
  obtain c10 where c10: "sample_color cam sc w h x y 1 0 = Inr c10" using ret by blast
  obtain c01 where c01: "sample_color cam sc w h x y 0 1 = Inr c01" using ret by blast
  obtain c11 where c11: "sample_color cam sc w h x y 1 1 = Inr c11" using ret by blast
  have "render_pixel cam sc w h x y =
        Inr (rgb (Vector3 ((vx c00 + vx c10 + vx c01 + vx c11) / 4)
                          ((vy c00 + vy c10 + vy c01 + vy c11) / 4)
                          ((vz c00 + vz c10 + vz c01 + vz c11) / 4)))"
    by (simp add: render_pixel_def Let_def sample_loop_four [OF c00 c10 c01 c11] itruediv_def)
  with c00 c10 c01 c11 show ?thesis by blast
qed

text \<open>
  Claim C7. For every pixel \<open>(x, y)\<close> of the 1000 by 800 image, \<open>render_scene\<close> returns a
  buffer whose row \<open>y\<close>, column \<open>x\<close> holds the 8-bit conversion of the sum, divided by 4,
  of the shader's colours of the four camera rays of the sub-samples \<open>sx, sy \<in> {0, 1}\<close>;
  as numbers, the three channels are the averages clamped to \<open>[0, 1]\<close>, multiplied by 255
  and cut off below the point.
\<close>

theorem render_scene_pixel:
  assumes "x < 1000" and "y < 800"
  shows "\<exists>cam buf c00 c10 c01 c11.
      the_camera = Inr cam \<and> render_scene = Inr buf
    \<and> length buf = 800 \<and> length (buf ! y) = 1000
    \<and> color (subsample_ray cam x y 0 0) the_scene 2 3 = Inr c00
    \<and> color (subsample_ray cam x y 1 0) the_scene 2 3 = Inr c10
    \<and> color (subsample_ray cam x y 0 1) the_scene 2 3 = Inr c01
    \<and> color (subsample_ray cam x y 1 1) the_scene 2 3 = Inr c11
    \<and> buf ! y ! x = rgb (Vector3 ((vx c00 + vx c10 + vx c01 + vx c11) / 4)
                                ((vy c00 + vy c10 + vy c01 + vy c11) / 4)
                                ((vz c00 + vz c10 + vz c01 + vz c11) / 4))
    \<and> map unat (buf ! y ! x) =
        map (\<lambda>c. nat \<lfloor>max 0 (min 1 c) * 255\<rfloor>)
          [(vx c00 + vx c10 + vx c01 + vx c11) / 4, (vy c00 + vy c10 + vy c01 + vy c11) / 4,
           (vz c00 + vz c10 + vz c01 + vz c11) / 4]"
proof -
  obtain cam where cam: "the_camera = Inr cam" "forward cam = Vector3 0 0 1"
    "right cam = Vector3 1 0 0" "up cam = Vector3 0 1 0" "screen_distance cam = 1"
    using the_camera_value by simp
  note pixel = render_pixel_value [OF cam(2-5), of the_scene 1000 800]
  have row: "\<exists>bs. for_each (\<lambda>x. render_pixel cam the_scene 1000 800 x y') [0..<1000] = Inr bs
      \<and> length bs = 1000
      \<and> (\<forall>i<1000. render_pixel cam the_scene 1000 800 i y' = Inr (bs ! i))" for y'
    using for_each_returns [of "[0..<1000]" "\<lambda>x. render_pixel cam the_scene 1000 800 x y'"] pixel
    by fastforce
  obtain buf where buf: "render_rows cam the_scene 1000 800 = Inr buf" "length buf = 800"
    "\<forall>i<800. for_each (\<lambda>x. render_pixel cam the_scene 1000 800 x i) [0..<1000] = Inr (buf ! i)"
    using for_each_returns [of "[0..<800]"
        "\<lambda>y. for_each (\<lambda>x. render_pixel cam the_scene 1000 800 x y) [0..<1000]"] row
    by (fastforce simp: render_rows_def)
  from buf(3) assms(2)
  have "for_each (\<lambda>x. render_pixel cam the_scene 1000 800 x y) [0..<1000] = Inr (buf ! y)"
    by simp
  with row [of y] assms(1)
  have len: "length (buf ! y) = 1000"
    and px: "render_pixel cam the_scene 1000 800 x y = Inr (buf ! y ! x)"
    by auto
  obtain c00 c10 c01 c11 where
    c: "sample_color cam the_scene 1000 800 x y 0 0 = Inr c00"
       "sample_color cam the_scene 1000 800 x y 1 0 = Inr c10"
       "sample_color cam the_scene 1000 800 x y 0 1 = Inr c01"
       "sample_color cam the_scene 1000 800 x y 1 1 = Inr c11"
    and v: "render_pixel cam the_scene 1000 800 x y =
        Inr (rgb (Vector3 ((vx c00 + vx c10 + vx c01 + vx c11) / 4)
                          ((vy c00 + vy c10 + vy c01 + vy c11) / 4)
                          ((vz c00 + vz c10 + vz c01 + vz c11) / 4)))"
    using pixel [of x y] by blast
  from px v have val: "buf ! y ! x =
      rgb (Vector3 ((vx c00 + vx c10 + vx c01 + vx c11) / 4)
                   ((vy c00 + vy c10 + vy c01 + vy c11) / 4)
                   ((vz c00 + vz c10 + vz c01 + vz c11) / 4))"
    by simp
  have rays: "color (subsample_ray cam x y 0 0) the_scene 2 3 = Inr c00"
    "color (subsample_ray cam x y 1 0) the_scene 2 3 = Inr c10"
    "color (subsample_ray cam x y 0 1) the_scene 2 3 = Inr c01"
    "color (subsample_ray cam x y 1 1) the_scene 2 3 = Inr c11"
    using c by (simp_all add: sample_color_def subsample_ray_def Let_def)
  have "render_scene = Inr buf" by (simp add: render_scene_def cam(1) buf(1))
  with cam(1) buf(2) len rays val unat_rgb show ?thesis
    by (intro exI [of _ cam] exI [of _ buf] exI [of _ c00] exI [of _ c10] exI [of _ c01]
        exI [of _ c11]) simp
qed

text \<open>
  The pixel in the middle of the image, \<open>x = 500\<close> and \<open>y = 400\<close>.
\<close>

theorem render_scene_pixel_witness:
  "(500::nat) < 1000 \<and> (400::nat) < 800
   \<and> (\<exists>cam buf c00 c10 c01 c11.
        the_camera = Inr cam \<and> render_scene = Inr buf
      \<and> length buf = 800 \<and> length (buf ! 400) = 1000
      \<and> color (subsample_ray cam 500 400 0 0) the_scene 2 3 = Inr c00
      \<and> color (subsample_ray cam 500 400 1 0) the_scene 2 3 = Inr c10
      \<and> color (subsample_ray cam 500 400 0 1) the_scene 2 3 = Inr c01
      \<and> color (subsample_ray cam 500 400 1 1) the_scene 2 3 = Inr c11
      \<and> buf ! 400 ! 500 = rgb (Vector3 ((vx c00 + vx c10 + vx c01 + vx c11) / 4)
                                  ((vy c00 + vy c10 + vy c01 + vy c11) / 4)
                                  ((vz c00 + vz c10 + vz c01 + vz c11) / 4)))"
proof -
  have h: "(500::nat) < 1000" "(400::nat) < 800" by simp_all
  from render_scene_pixel [OF h] show ?thesis by (simp only: h simp_thms) blast
qed

end
